theory Spec2Isabelle
  imports Main "HOL-Library.Word"
begin

unbundle bit_operations_syntax

section \<open>The protocol engine of the Green End SFTP server\<close>

text \<open>
  A shallow embedding of \<^verbatim>\<open>sftpserver.c\<close> (version negotiation, dispatch, the
  server loop) and \<^verbatim>\<open>status.c\<close> (the status translator). Every function of
  these files that a property below talks about is a HOL function of the same name;
  global variables of the C program (\<^verbatim>\<open>protocol\<close>, \<^verbatim>\<open>workqueue\<close>,
  \<^verbatim>\<open>reverse_symlink\<close>, \<^verbatim>\<open>errno\<close>) are fields of an explicit state, and
  what the program writes to its output is a field of that state too.
\<close>

subsection \<open>Wire values\<close>

type_synonym uint8 = "8 word"
type_synonym uint16 = "16 word"
type_synonym uint32 = "32 word"
type_synonym uint64 = "64 word"

text \<open>
  A response is what the calls \<^verbatim>\<open>send_uint8\<close>, \<^verbatim>\<open>send_uint32\<close>,
  \<^verbatim>\<open>send_string\<close>, ... put between \<^verbatim>\<open>send_begin\<close> and \<^verbatim>\<open>send_end\<close>,
  in the order of the calls. The bytes each call produces are the business of
  \<^verbatim>\<open>send.c\<close>; \<open>Sub\<close> holds what is sent between \<^verbatim>\<open>send_sub_begin\<close> and
  \<^verbatim>\<open>send_sub_end\<close>.
\<close>

datatype field =
    U8 uint8
  | U16 uint16
  | U32 uint32
  | U64 uint64
  | Str string
  | Sub "field list"

type_synonym response = "field list"

subsection \<open>Constants of the protocol\<close>

text \<open>
  Modelled from the spec: \<^verbatim>\<open>sftp.h\<close> is not among the sources. The spec fixes
  INIT = 1, VERSION = 2, STATUS = 101, \<^verbatim>\<open>SSH_FX_FAILURE\<close> = 4,
  \<^verbatim>\<open>SSH_FX_OP_UNSUPPORTED\<close> = 8 and \<^verbatim>\<open>SSH_FX_FILE_ALREADY_EXISTS\<close> = 11; the
  other status codes are numbered as in the protocol drafts the source cites
  (draft-ietf-secsh-filexfer-13, section 9.1).
\<close>

definition SSH_FXP_INIT :: nat where "SSH_FXP_INIT = 1"
definition SSH_FXP_VERSION :: uint8 where "SSH_FXP_VERSION = 2"
definition SSH_FXP_STATUS :: uint8 where "SSH_FXP_STATUS = 101"

definition SSH_FX_OK :: uint32 where "SSH_FX_OK = 0"
definition SSH_FX_EOF :: uint32 where "SSH_FX_EOF = 1"
definition SSH_FX_NO_SUCH_FILE :: uint32 where "SSH_FX_NO_SUCH_FILE = 2"
definition SSH_FX_PERMISSION_DENIED :: uint32 where "SSH_FX_PERMISSION_DENIED = 3"
definition SSH_FX_FAILURE :: uint32 where "SSH_FX_FAILURE = 4"
definition SSH_FX_BAD_MESSAGE :: uint32 where "SSH_FX_BAD_MESSAGE = 5"
definition SSH_FX_NO_CONNECTION :: uint32 where "SSH_FX_NO_CONNECTION = 6"
definition SSH_FX_CONNECTION_LOST :: uint32 where "SSH_FX_CONNECTION_LOST = 7"
definition SSH_FX_OP_UNSUPPORTED :: uint32 where "SSH_FX_OP_UNSUPPORTED = 8"
definition SSH_FX_INVALID_HANDLE :: uint32 where "SSH_FX_INVALID_HANDLE = 9"
definition SSH_FX_NO_SUCH_PATH :: uint32 where "SSH_FX_NO_SUCH_PATH = 10"
definition SSH_FX_FILE_ALREADY_EXISTS :: uint32 where "SSH_FX_FILE_ALREADY_EXISTS = 11"
definition SSH_FX_WRITE_PROTECT :: uint32 where "SSH_FX_WRITE_PROTECT = 12"
definition SSH_FX_NO_MEDIA :: uint32 where "SSH_FX_NO_MEDIA = 13"
definition SSH_FX_NO_SPACE_ON_FILESYSTEM :: uint32 where "SSH_FX_NO_SPACE_ON_FILESYSTEM = 14"
definition SSH_FX_QUOTA_EXCEEDED :: uint32 where "SSH_FX_QUOTA_EXCEEDED = 15"
definition SSH_FX_UNKNOWN_PRINCIPAL :: uint32 where "SSH_FX_UNKNOWN_PRINCIPAL = 16"
definition SSH_FX_LOCK_CONFLICT :: uint32 where "SSH_FX_LOCK_CONFLICT = 17"
definition SSH_FX_DIR_NOT_EMPTY :: uint32 where "SSH_FX_DIR_NOT_EMPTY = 18"
definition SSH_FX_NOT_A_DIRECTORY :: uint32 where "SSH_FX_NOT_A_DIRECTORY = 19"
definition SSH_FX_INVALID_FILENAME :: uint32 where "SSH_FX_INVALID_FILENAME = 20"
definition SSH_FX_LINK_LOOP :: uint32 where "SSH_FX_LINK_LOOP = 21"
definition SSH_FX_CANNOT_DELETE :: uint32 where "SSH_FX_CANNOT_DELETE = 22"
definition SSH_FX_INVALID_PARAMETER :: uint32 where "SSH_FX_INVALID_PARAMETER = 23"
definition SSH_FX_FILE_IS_A_DIRECTORY :: uint32 where "SSH_FX_FILE_IS_A_DIRECTORY = 24"
definition SSH_FX_BYTE_RANGE_LOCK_CONFLICT :: uint32 where "SSH_FX_BYTE_RANGE_LOCK_CONFLICT = 25"
definition SSH_FX_BYTE_RANGE_LOCK_REFUSED :: uint32 where "SSH_FX_BYTE_RANGE_LOCK_REFUSED = 26"
definition SSH_FX_DELETE_PENDING :: uint32 where "SSH_FX_DELETE_PENDING = 27"
definition SSH_FX_FILE_CORRUPT :: uint32 where "SSH_FX_FILE_CORRUPT = 28"
definition SSH_FX_OWNER_INVALID :: uint32 where "SSH_FX_OWNER_INVALID = 29"
definition SSH_FX_GROUP_INVALID :: uint32 where "SSH_FX_GROUP_INVALID = 30"
definition SSH_FX_NO_MATCHING_BYTE_RANGE_LOCK :: uint32 where
  "SSH_FX_NO_MATCHING_BYTE_RANGE_LOCK = 31"

subsection \<open>status.c: the message of a status code\<close>

text \<open>The \<^verbatim>\<open>switch\<close> of \<^verbatim>\<open>status_to_string\<close>, case by case in the source's order.\<close>

definition status_to_string :: "uint32 \<Rightarrow> string" where
  "status_to_string status =
    (if status = SSH_FX_OK then ''OK''
     else if status = SSH_FX_EOF then ''end of file''
     else if status = SSH_FX_NO_SUCH_FILE then ''file does not exist''
     else if status = SSH_FX_PERMISSION_DENIED then ''permission denied''
     else if status = SSH_FX_FAILURE then ''operation failed''
     else if status = SSH_FX_BAD_MESSAGE then ''badly encoded SFTP packet''
     else if status = SSH_FX_NO_CONNECTION then ''no connection''
     else if status = SSH_FX_CONNECTION_LOST then ''connection lost''
     else if status = SSH_FX_OP_UNSUPPORTED then ''operation not supported''
     else if status = SSH_FX_INVALID_HANDLE then ''invalid handle''
     else if status = SSH_FX_NO_SUCH_PATH then ''path does not exist or is invalid''
     else if status = SSH_FX_FILE_ALREADY_EXISTS then ''file already exists''
     else if status = SSH_FX_WRITE_PROTECT then ''file is on read-only medium''
     else if status = SSH_FX_NO_MEDIA then ''no medium in drive''
     else if status = SSH_FX_NO_SPACE_ON_FILESYSTEM then ''no space on filesystem''
     else if status = SSH_FX_QUOTA_EXCEEDED then ''quota exceeded''
     else if status = SSH_FX_UNKNOWN_PRINCIPAL then ''unknown principal''
     else if status = SSH_FX_LOCK_CONFLICT then ''file is locked''
     else if status = SSH_FX_DIR_NOT_EMPTY then ''directory is not empty''
     else if status = SSH_FX_NOT_A_DIRECTORY then ''file is not a directory''
     else if status = SSH_FX_INVALID_FILENAME then ''invalid filename''
     else if status = SSH_FX_LINK_LOOP then ''too many symbolic links''
     else if status = SSH_FX_CANNOT_DELETE then ''file cannot be deleted''
     else if status = SSH_FX_INVALID_PARAMETER then ''invalid parameter''
     else if status = SSH_FX_FILE_IS_A_DIRECTORY then ''file is a directory''
     else if status = SSH_FX_BYTE_RANGE_LOCK_CONFLICT then ''byte range is locked''
     else if status = SSH_FX_BYTE_RANGE_LOCK_REFUSED then ''cannot lock byte range''
     else if status = SSH_FX_DELETE_PENDING then ''file deletion pending''
     else if status = SSH_FX_FILE_CORRUPT then ''file is corrupt''
     else if status = SSH_FX_OWNER_INVALID then ''invalid owner''
     else if status = SSH_FX_GROUP_INVALID then ''invalid group''
     else if status = SSH_FX_NO_MATCHING_BYTE_RANGE_LOCK then ''no such lock''
     else ''unknown status'')"

subsection \<open>Jobs, protocol tables and the server's state\<close>

text \<open>
  \<^verbatim>\<open>struct sftpjob\<close>: \<open>data\<close> is the payload (\<^verbatim>\<open>job->len\<close> is its length),
  \<open>ptr\<close> the bytes from the cursor \<^verbatim>\<open>job->ptr\<close> to the end of the payload
  (\<^verbatim>\<open>job->left\<close> is its length), \<open>jobid\<close> the field \<^verbatim>\<open>job->id\<close>.
\<close>

record sftpjob =
  data :: "uint8 list"
  ptr :: "uint8 list"
  jobid :: uint32

text \<open>
  \<^verbatim>\<open>protocol\<close> points to one of five tables and the code compares it with
  \<^verbatim>\<open>&sftppreinit\<close>: the pointer is the name of the table.
\<close>

datatype protocol_ptr = Preinit | V3 | V4 | V5 | V6

text \<open>
  The globals the three files read and write. \<open>workqueue\<close> is \<open>None\<close> for the null
  pointer; \<open>Some q\<close> is a pool, with the jobs \<^verbatim>\<open>queue_add\<close> has handed to it.
  \<open>sent\<close> lists the responses sent so far.
\<close>

record server_state =
  protocol :: protocol_ptr
  workqueue :: "sftpjob list option"
  reverse_symlink :: bool
  errno :: int
  sent :: "response list"

text \<open>
  A command handler gets the job and returns a status. \<^verbatim>\<open>sftp_init\<close> is the one
  handler of these files; the handlers of the versioned tables live in other files
  and are any function of the job and the state. A handler does not write
  \<^verbatim>\<open>job->id\<close>, and its moves of the cursor are not read after it returns, so it
  gets the job by value.
\<close>

datatype handler =
    Sftp_init
  | External "sftpjob \<Rightarrow> server_state \<Rightarrow> uint32 \<times> server_state"

record sftpcmd =
  type :: nat
  handler :: handler

text \<open>
  \<^verbatim>\<open>struct sftpprotocol\<close>, the fields these files read: \<^verbatim>\<open>ncommands\<close> and
  \<^verbatim>\<open>nextensions\<close> are the lengths of the two arrays (the tables initialise them
  with \<^verbatim>\<open>sizeof\<close>), and an extension is read for its name only.
\<close>

record sftpprotocol =
  commands :: "sftpcmd list"
  version :: uint32
  maxstatus :: uint32
  extensions :: "string list"

definition ncommands :: "sftpprotocol \<Rightarrow> int" where
  "ncommands p = int (length (commands p))"

definition nextensions :: "sftpprotocol \<Rightarrow> nat" where
  "nextensions p = length (extensions p)"

text \<open>
  What the three files take from elsewhere: the four versioned tables
  (\<^verbatim>\<open>v3.c\<close> ... \<^verbatim>\<open>v6.c\<close>), the macros \<^verbatim>\<open>HANDLER_RESPONDED\<close>,
  \<^verbatim>\<open>REVERSE_SYMLINK\<close> and \<^verbatim>\<open>VERSION\<close>, and from the C library
  \<^verbatim>\<open>strerror\<close> and the error numbers of \<^verbatim>\<open>errno.h\<close>.
\<close>

record env =
  sftpv3 :: sftpprotocol
  sftpv4 :: sftpprotocol
  sftpv5 :: sftpprotocol
  sftpv6 :: sftpprotocol
  HANDLER_RESPONDED :: uint32
  REVERSE_SYMLINK :: bool
  VERSION :: string
  strerror :: "int \<Rightarrow> string"
  EPERM :: int
  EACCES :: int
  ENOENT :: int
  EIO :: int
  ENOSPC :: int
  ENOTDIR :: int
  EISDIR :: int
  EEXIST :: int
  EROFS :: int
  ELOOP :: int
  ENAMETOOLONG :: int
  ENOTEMPTY :: int
  EDQUOT :: int

text \<open>
  \<^verbatim>\<open>sftppreinit\<close> and its one-entry command table \<^verbatim>\<open>sftppreinittab\<close>:
  version 3, \<^verbatim>\<open>maxstatus = SSH_FX_OP_UNSUPPORTED\<close>, no extensions.
\<close>

definition sftppreinittab :: "sftpcmd list" where
  "sftppreinittab = [\<lparr>type = SSH_FXP_INIT, handler = Sftp_init\<rparr>]"

definition sftppreinit :: sftpprotocol where
  "sftppreinit =
    \<lparr>commands = sftppreinittab, version = 3, maxstatus = SSH_FX_OP_UNSUPPORTED,
     extensions = []\<rparr>"

text \<open>Reading through the pointer \<^verbatim>\<open>protocol\<close>.\<close>

definition deref :: "env \<Rightarrow> protocol_ptr \<Rightarrow> sftpprotocol" where
  "deref E p =
    (case p of Preinit \<Rightarrow> sftppreinit | V3 \<Rightarrow> sftpv3 E | V4 \<Rightarrow> sftpv4 E
     | V5 \<Rightarrow> sftpv5 E | V6 \<Rightarrow> sftpv6 E)"

subsection \<open>status.c: sending a status\<close>

text \<open>
  \<^verbatim>\<open>errnotab\<close>, and the loop of \<^verbatim>\<open>send_errno_status\<close> that walks it until an
  entry has the error number or is the final \<open>-1\<close>. Leaving the table (\<open>None\<close>)
  does not happen: its last entry stops the loop.
\<close>

definition errnotab :: "env \<Rightarrow> (int \<times> uint32) list" where
  "errnotab E =
    [(0, SSH_FX_OK),
     (EPERM E, SSH_FX_PERMISSION_DENIED),
     (EACCES E, SSH_FX_PERMISSION_DENIED),
     (ENOENT E, SSH_FX_NO_SUCH_FILE),
     (EIO E, SSH_FX_FILE_CORRUPT),
     (ENOSPC E, SSH_FX_NO_SPACE_ON_FILESYSTEM),
     (ENOTDIR E, SSH_FX_NOT_A_DIRECTORY),
     (EISDIR E, SSH_FX_FILE_IS_A_DIRECTORY),
     (EEXIST E, SSH_FX_FILE_ALREADY_EXISTS),
     (EROFS E, SSH_FX_WRITE_PROTECT),
     (ELOOP E, SSH_FX_LINK_LOOP),
     (ENAMETOOLONG E, SSH_FX_INVALID_FILENAME),
     (ENOTEMPTY E, SSH_FX_DIR_NOT_EMPTY),
     (EDQUOT E, SSH_FX_QUOTA_EXCEEDED),
     (-1, SSH_FX_FAILURE)]"

fun errnotab_find :: "(int \<times> uint32) list \<Rightarrow> int \<Rightarrow> uint32 option" where
  "errnotab_find [] errno_value = None"
| "errnotab_find ((e, status_value) # tab) errno_value =
    (if e \<noteq> errno_value \<and> e \<noteq> -1 then errnotab_find tab errno_value
     else Some status_value)"

text \<open>
  \<^verbatim>\<open>send_status\<close> and \<^verbatim>\<open>send_errno_status\<close> call each other. A null \<^verbatim>\<open>msg\<close>
  is \<open>None\<close>. The status \<open>-1\<close> (all ones) is handed to \<^verbatim>\<open>send_errno_status\<close>,
  which comes back with a status of the table and the text of the error.
\<close>

function send_status :: "env \<Rightarrow> sftpjob \<Rightarrow> uint32 \<Rightarrow> string option \<Rightarrow> server_state \<Rightarrow> server_state"
  and send_errno_status :: "env \<Rightarrow> sftpjob \<Rightarrow> server_state \<Rightarrow> server_state" where
  "send_status E job status msg s =
    (if status = -1 then send_errno_status E job s
     else
       let msg' = (case msg of None \<Rightarrow> status_to_string status | Some m \<Rightarrow> m);
           status' = (if status > maxstatus (deref E (protocol s)) then SSH_FX_FAILURE
                      else status)
       in s\<lparr>sent := sent s @
              [[U8 SSH_FXP_STATUS, U32 (jobid job), U32 status', Str msg', Str ''en'']]\<rparr>)"
| "send_errno_status E job s =
    (let errno_value = errno s in
     case errnotab_find (errnotab E) errno_value of
       None \<Rightarrow> s
     | Some status_value \<Rightarrow>
         send_status E job status_value (Some (strerror E errno_value)) s)"
  by pat_completeness auto
termination
proof (relation "measure (\<lambda>x. case x of
         Inl (E, job, status, msg, s) \<Rightarrow> (if status = -1 then 2 else 0)
       | Inr (E, job, s) \<Rightarrow> 1)")
  show "wf (measure (\<lambda>x. case x of
         Inl (E, job, status, msg, s) \<Rightarrow> (if status = (-1 :: uint32) then 2 else 0)
       | Inr (E :: env, job :: sftpjob, s :: server_state) \<Rightarrow> (1 :: nat)))"
    by simp
next
  fix E :: env and job :: sftpjob and status :: uint32 and msg :: "string option"
    and s :: server_state
  assume "status = -1"
  then show "(Inr (E, job, s), Inl (E, job, status, msg, s))
      \<in> measure (\<lambda>x. case x of
         Inl (E, job, status, msg, s) \<Rightarrow> (if status = -1 then 2 else 0)
       | Inr (E, job, s) \<Rightarrow> 1)"
    by simp
next
  fix E :: env and job :: sftpjob and s :: server_state and x :: int and x2 :: uint32
  assume x: "x = errno s" and f: "errnotab_find (errnotab E) x = Some x2"
  have "x2 \<noteq> -1"
    using f
    by (auto simp: errnotab_def SSH_FX_OK_def SSH_FX_PERMISSION_DENIED_def
        SSH_FX_NO_SUCH_FILE_def SSH_FX_FILE_CORRUPT_def SSH_FX_NO_SPACE_ON_FILESYSTEM_def
        SSH_FX_NOT_A_DIRECTORY_def SSH_FX_FILE_IS_A_DIRECTORY_def
        SSH_FX_FILE_ALREADY_EXISTS_def SSH_FX_WRITE_PROTECT_def SSH_FX_LINK_LOOP_def
        SSH_FX_INVALID_FILENAME_def SSH_FX_DIR_NOT_EMPTY_def SSH_FX_QUOTA_EXCEEDED_def
        SSH_FX_FAILURE_def split: if_splits)
  then show "(Inl (E, job, x2, Some (strerror E x), s), Inr (E, job, s))
      \<in> measure (\<lambda>x. case x of
         Inl (E, job, status, msg, s) \<Rightarrow> (if status = -1 then 2 else 0)
       | Inr (E, job, s) \<Rightarrow> 1)"
    by simp
qed

text \<open>\<^verbatim>\<open>send_ok\<close>.\<close>

definition send_ok :: "env \<Rightarrow> sftpjob \<Rightarrow> server_state \<Rightarrow> server_state" where
  "send_ok E job s = send_status E job SSH_FX_OK None s"

subsection \<open>Decoding a 32-bit integer\<close>

text \<open>
  Modelled from the spec: \<^verbatim>\<open>parse.c\<close> is not among the sources. Section 4.1:
  integers are big-endian, and a decoder fails with \<^verbatim>\<open>SSH_FX_BAD_MESSAGE\<close> on a
  short read. A failure (\<open>Inl\<close>, a status other than \<^verbatim>\<open>SSH_FX_OK\<close>) writes
  nothing and leaves the cursor; a success (\<open>Inr\<close>) gives the value and the job with
  the cursor four bytes on. \<^verbatim>\<open>pcheck\<close> returns the status of a failure from the
  calling handler.
\<close>

definition get32 :: "uint8 \<Rightarrow> uint8 \<Rightarrow> uint8 \<Rightarrow> uint8 \<Rightarrow> uint32" where
  "get32 b0 b1 b2 b3 =
    push_bit 24 (ucast b0) + push_bit 16 (ucast b1) + push_bit 8 (ucast b2) + ucast b3"

definition parse_uint32 :: "sftpjob \<Rightarrow> uint32 + (uint32 \<times> sftpjob)" where
  "parse_uint32 job =
    (case ptr job of
       b0 # b1 # b2 # b3 # rest \<Rightarrow> Inr (get32 b0 b1 b2 b3, job\<lparr>ptr := rest\<rparr>)
     | _ \<Rightarrow> Inl SSH_FX_BAD_MESSAGE)"

subsection \<open>sftpserver.c: initialization\<close>

text \<open>
  The attribute and open-flag bits of \<^verbatim>\<open>sftp.h\<close> that \<^verbatim>\<open>sftp_init\<close> advertises,
  numbered as in draft-ietf-secsh-filexfer-13 (sections 7.1 and 8.1.1.3).
\<close>

definition SSH_FILEXFER_ATTR_SIZE :: uint32 where "SSH_FILEXFER_ATTR_SIZE = 0x00000001"
definition SSH_FILEXFER_ATTR_PERMISSIONS :: uint32 where
  "SSH_FILEXFER_ATTR_PERMISSIONS = 0x00000004"
definition SSH_FILEXFER_ATTR_ACCESSTIME :: uint32 where
  "SSH_FILEXFER_ATTR_ACCESSTIME = 0x00000008"
definition SSH_FILEXFER_ATTR_MODIFYTIME :: uint32 where
  "SSH_FILEXFER_ATTR_MODIFYTIME = 0x00000020"
definition SSH_FILEXFER_ATTR_OWNERGROUP :: uint32 where
  "SSH_FILEXFER_ATTR_OWNERGROUP = 0x00000080"
definition SSH_FILEXFER_ATTR_SUBSECOND_TIMES :: uint32 where
  "SSH_FILEXFER_ATTR_SUBSECOND_TIMES = 0x00000100"
definition SSH_FXF_ACCESS_DISPOSITION :: uint32 where "SSH_FXF_ACCESS_DISPOSITION = 0x00000007"
definition SSH_FXF_APPEND_DATA :: uint32 where "SSH_FXF_APPEND_DATA = 0x00000008"
definition SSH_FXF_APPEND_DATA_ATOMIC :: uint32 where "SSH_FXF_APPEND_DATA_ATOMIC = 0x00000010"
definition SSH_FXF_TEXT_MODE :: uint32 where "SSH_FXF_TEXT_MODE = 0x00000020"
definition SSH_FXF_NOFOLLOW :: uint32 where "SSH_FXF_NOFOLLOW = 0x00000400"
definition SSH_FXF_DELETE_ON_CLOSE :: uint32 where "SSH_FXF_DELETE_ON_CLOSE = 0x00000800"

text \<open>\<^verbatim>\<open>queue_init(&workqueue, ...)\<close> stores a new, empty pool in \<^verbatim>\<open>workqueue\<close>.\<close>

definition queue_init :: "server_state \<Rightarrow> server_state" where
  "queue_init s = s\<lparr>workqueue := Some []\<rparr>"

text \<open>
  The response \<^verbatim>\<open>sftp_init\<close> assembles from \<^verbatim>\<open>send_begin\<close> to \<^verbatim>\<open>send_end\<close>,
  for the table \<open>p\<close> that \<^verbatim>\<open>protocol\<close> now points to and the value \<open>rs\<close> of
  \<^verbatim>\<open>reverse_symlink\<close>.
\<close>

definition version_response :: "env \<Rightarrow> sftpprotocol \<Rightarrow> bool \<Rightarrow> response" where
  "version_response E p rs =
    [U8 SSH_FXP_VERSION, U32 (version p)]
    @ (if version p \<ge> 4 then [Str ''newline'', Str [CHR 0x0A]] else [])
    @ (if version p = 5 then
         [Str ''supported'',
          Sub ([U32 (SSH_FILEXFER_ATTR_SIZE OR SSH_FILEXFER_ATTR_PERMISSIONS
                     OR SSH_FILEXFER_ATTR_ACCESSTIME OR SSH_FILEXFER_ATTR_MODIFYTIME
                     OR SSH_FILEXFER_ATTR_OWNERGROUP OR SSH_FILEXFER_ATTR_SUBSECOND_TIMES),
                U32 0,
                U32 (SSH_FXF_ACCESS_DISPOSITION OR SSH_FXF_APPEND_DATA
                     OR SSH_FXF_APPEND_DATA_ATOMIC OR SSH_FXF_TEXT_MODE),
                U32 0xFFFFFFFF,
                U32 0]
               @ map Str (extensions p))]
       else [])
    @ (if version p \<ge> 6 then
         [Str ''supported2'',
          Sub ([U32 (SSH_FILEXFER_ATTR_SIZE OR SSH_FILEXFER_ATTR_PERMISSIONS
                     OR SSH_FILEXFER_ATTR_ACCESSTIME OR SSH_FILEXFER_ATTR_MODIFYTIME
                     OR SSH_FILEXFER_ATTR_OWNERGROUP OR SSH_FILEXFER_ATTR_SUBSECOND_TIMES),
                U32 0,
                U32 (SSH_FXF_ACCESS_DISPOSITION OR SSH_FXF_APPEND_DATA
                     OR SSH_FXF_APPEND_DATA_ATOMIC OR SSH_FXF_TEXT_MODE
                     OR SSH_FXF_NOFOLLOW OR SSH_FXF_DELETE_ON_CLOSE),
                U32 0xFFFFFFFF,
                U32 0,
                U16 0,
                U16 0,
                U32 0,
                U32 (of_nat (nextensions p))]
               @ map Str (extensions p)),
          Str ''versions'', Str ''3,4,5,6'']
       else [])
    @ [Str ''vendor-id'',
       Sub [Str ''Green End'', Str ''Green End SFTP Server'', Str (VERSION E), U64 0]]
    @ [Str ''symlink-order@rjk.greenend.org.uk'',
       Str (if rs then ''targetpath-linkpath'' else ''linkpath-targetpath'')]
    @ (if version p \<ge> 6 then
         [Str ''link-order@rjk.greenend.org.uk'', Str ''linkpath-targetpath'']
       else [])"

text \<open>
  \<^verbatim>\<open>sftp_init\<close>: the check of \<^verbatim>\<open>protocol\<close>, the decoding of the client's version,
  the \<^verbatim>\<open>switch\<close>, the response, and the creation of the pool below version 6.
\<close>

definition sftp_init :: "env \<Rightarrow> sftpjob \<Rightarrow> server_state \<Rightarrow> uint32 \<times> server_state" where
  "sftp_init E job s =
    (if protocol s \<noteq> Preinit then (SSH_FX_FAILURE, s)
     else
       case parse_uint32 job of
         Inl rc \<Rightarrow> (rc, s)
       | Inr (version', job') \<Rightarrow>
           if version' = 0 \<or> version' = 1 \<or> version' = 2 then (SSH_FX_OP_UNSUPPORTED, s)
           else
             let s1 =
                   (if version' = 3 then
                      s\<lparr>protocol := V3,
                        reverse_symlink := (if REVERSE_SYMLINK E then True
                                            else reverse_symlink s)\<rparr>
                    else if version' = 4 then s\<lparr>protocol := V4\<rparr>
                    else if version' = 5 then s\<lparr>protocol := V5\<rparr>
                    else s\<lparr>protocol := V6\<rparr>);
                 p = deref E (protocol s1);
                 s2 = s1\<lparr>sent := sent s1 @ [version_response E p (reverse_symlink s1)]\<rparr>;
                 s3 = (if version p < 6 then queue_init s2 else s2)
             in (HANDLER_RESPONDED E, s3))"

subsection \<open>sftpserver.c: processing a job\<close>

text \<open>Calling through the function pointer of a table entry.\<close>

definition run_handler ::
  "env \<Rightarrow> handler \<Rightarrow> sftpjob \<Rightarrow> server_state \<Rightarrow> uint32 \<times> server_state" where
  "run_handler E h job s = (case h of Sftp_init \<Rightarrow> sftp_init E job s | External f \<Rightarrow> f job s)"

text \<open>
  The loop of \<^verbatim>\<open>process_sftpjob\<close> that locates the handler, from \<^verbatim>\<open>l = 0\<close> and
  \<^verbatim>\<open>r = ncommands - 1\<close>: the index of the entry where it stops, or \<open>None\<close> when
  it runs out (\<^verbatim>\<open>l > r\<close>). From these bounds \<open>m\<close> stays inside the array,
  where \<open>l + r\<close> is not negative and C's division is \<open>div\<close>; an \<open>m\<close>
  outside, which the C code does not expect, ends the search.
\<close>

function locate :: "sftpcmd list \<Rightarrow> nat \<Rightarrow> int \<Rightarrow> int \<Rightarrow> nat option" where
  "locate cmds type' l r =
    (if l \<le> r then
       let m = (l + r) div 2 in
       if m < 0 \<or> int (length cmds) \<le> m then None
       else
         let mtype = type (cmds ! nat m) in
         if type' < mtype then locate cmds type' l (m - 1)
         else if type' > mtype then locate cmds type' (m + 1) r
         else Some (nat m)
     else None)"
  by pat_completeness auto
termination
  by (relation "measure (\<lambda>(cmds, type', l, r). nat (r - l + 1))") auto

text \<open>
  The code at the label \<^verbatim>\<open>done\<close>. \<^verbatim>\<open>serialize_remove_job\<close> and the two
  \<^verbatim>\<open>free\<close>s touch the serialization gate and the heap only.
\<close>

definition job_done :: "nat \<Rightarrow> server_state \<Rightarrow> server_state" where
  "job_done type' s =
    (if type' \<noteq> SSH_FXP_INIT \<and> workqueue s = None then queue_init s else s)"

text \<open>
  \<^verbatim>\<open>process_sftpjob\<close>, in two parts. \<open>dispatch\<close> is the part from the comment
  ``Locate the handler for the command'' to the label \<^verbatim>\<open>done\<close>: the search, the
  call of the handler, and the \<^verbatim>\<open>switch\<close> on its status, which sends nothing for
  \<^verbatim>\<open>HANDLER_RESPONDED\<close> and a status otherwise; a search that finds nothing
  sends \<^verbatim>\<open>SSH_FX_OP_UNSUPPORTED\<close>. \<^verbatim>\<open>serialize\<close> touches the
  serialization gate only.
\<close>

definition dispatch :: "env \<Rightarrow> nat \<Rightarrow> sftpjob \<Rightarrow> server_state \<Rightarrow> server_state" where
  "dispatch E type' job s =
    (case locate (commands (deref E (protocol s))) type' 0
            (ncommands (deref E (protocol s)) - 1) of
       None \<Rightarrow> send_status E job SSH_FX_OP_UNSUPPORTED None s
     | Some m \<Rightarrow>
         (case run_handler E (handler (commands (deref E (protocol s)) ! m)) job s of
            (status, s') \<Rightarrow>
              if status = HANDLER_RESPONDED E then s'
              else send_status E job status None s'))"

text \<open>
  The whole function: the fields of the job are set, an empty message is refused,
  the type is read (\<open>type'\<close> is the local \<^verbatim>\<open>type\<close>, 0 until then; the byte
  is read as an unsigned number), then the
  ID of everything but \<^verbatim>\<open>SSH_FXP_INIT\<close>; every path ends at \<^verbatim>\<open>done\<close>.
\<close>

definition process_sftpjob :: "env \<Rightarrow> sftpjob \<Rightarrow> server_state \<Rightarrow> server_state" where
  "process_sftpjob E job0 s =
    (let job = job0\<lparr>jobid := 0, ptr := data job0\<rparr> in
     if ptr job = [] then
       job_done 0 (send_status E job SSH_FX_BAD_MESSAGE (Some ''empty request'') s)
     else
       let type' = unat (hd (ptr job));
           job = job\<lparr>ptr := tl (ptr job)\<rparr>
       in
       case (if type' \<noteq> SSH_FXP_INIT then
               (case parse_uint32 job of
                  Inl rc \<Rightarrow> Inl rc
                | Inr (v, job') \<Rightarrow> Inr (job'\<lparr>jobid := v\<rparr>))
             else Inr job) of
         Inl rc \<Rightarrow> job_done type' (send_status E job rc (Some ''missing ID field'') s)
       | Inr job \<Rightarrow> job_done type' (dispatch E type' job s))"

subsection \<open>sftpserver.c: the server loop\<close>

text \<open>
  Modelled from the spec: \<^verbatim>\<open>do_read\<close> (\<^verbatim>\<open>utils.c\<close>) is not among the sources.
  Section 4.2: exactly the bytes asked for are read, with no partial delivery. The
  input is the bytes the client sends before it closes the stream; \<open>None\<close> is the
  nonzero return at end of file, \<open>Some\<close> the bytes read and the rest of the input.
\<close>

definition do_read :: "uint8 list \<Rightarrow> nat \<Rightarrow> (uint8 list \<times> uint8 list) option" where
  "do_read inp n = (if length inp < n then None else Some (take n inp, drop n inp))"

text \<open>\<^verbatim>\<open>ntohl\<close> of the four bytes read into \<^verbatim>\<open>len\<close>.\<close>

definition ntohl :: "uint8 list \<Rightarrow> uint32" where
  "ntohl bs = get32 (bs ! 0) (bs ! 1) (bs ! 2) (bs ! 3)"

text \<open>
  \<^verbatim>\<open>queue_add(workqueue, job)\<close> hands the job to the pool. What the pool's threads
  then do with it is not part of this model.
\<close>

definition queue_add :: "sftpjob \<Rightarrow> server_state \<Rightarrow> server_state" where
  "queue_add job s = s\<lparr>workqueue := map_option (\<lambda>q. q @ [job]) (workqueue s)\<rparr>"

text \<open>
  How \<^verbatim>\<open>sftp_service\<close> ends: \<^verbatim>\<open>fatal\<close> logs its message and exits the process;
  \<open>Shutdown\<close> is leaving the loop, destroying the pool and returning.
\<close>

datatype exit = Fatal string | Shutdown

text \<open>
  The \<^verbatim>\<open>while\<close> loop of \<^verbatim>\<open>sftp_service\<close> on the input \<open>inp\<close>. A job fresh
  from \<^verbatim>\<open>xmalloc\<close> has its length and data set; \<^verbatim>\<open>process_sftpjob\<close> sets the
  other fields before it reads them.
\<close>

function sftp_service_loop ::
  "env \<Rightarrow> uint8 list \<Rightarrow> server_state \<Rightarrow> exit \<times> server_state" where
  "sftp_service_loop E inp s =
    (case do_read inp 4 of
       None \<Rightarrow> (Shutdown, s)
     | Some (len, inp1) \<Rightarrow>
         if ntohl len = 0 then (Fatal ''zero length job'', s)
         else
           (case do_read inp1 (unat (ntohl len)) of
              None \<Rightarrow> (Fatal ''read error: unexpected eof'', s)
            | Some (bytes, inp2) \<Rightarrow>
                let job = \<lparr>data = bytes, ptr = [], jobid = 0\<rparr> in
                sftp_service_loop E inp2
                  (if workqueue s \<noteq> None then queue_add job s
                   else process_sftpjob E job s)))"
  by pat_completeness auto
termination
  by (relation "measure (\<lambda>(E, inp, s). length inp)")
    (auto simp: do_read_def split: if_splits)

text \<open>
  \<^verbatim>\<open>sftp_service\<close> on a fresh connection: \<^verbatim>\<open>protocol = &sftppreinit\<close>, no pool,
  nothing sent. \<open>rs\<close> and \<open>e\<close> are what \<^verbatim>\<open>reverse_symlink\<close> and \<^verbatim>\<open>errno\<close>
  hold when the loop starts.
\<close>

definition initial_state :: "bool \<Rightarrow> int \<Rightarrow> server_state" where
  "initial_state rs e =
    \<lparr>protocol = Preinit, workqueue = None, reverse_symlink = rs, errno = e, sent = []\<rparr>"

definition sftp_service :: "env \<Rightarrow> uint8 list \<Rightarrow> exit \<times> server_state" where
  "sftp_service E inp = sftp_service_loop E inp (initial_state False 0)"

subsection \<open>An instance of the parameters\<close>

text \<open>
  Tables, macros and error numbers to run the functions on: the error numbers are
  those of Linux, the v3 table has \<^verbatim>\<open>maxstatus = SSH_FX_OP_UNSUPPORTED\<close> as the
  spec says, and three handlers stand for the commands of other files (one returns
  \<^verbatim>\<open>SSH_FX_FILE_ALREADY_EXISTS\<close>, one fails with \<^verbatim>\<open>ENOENT\<close> and returns
  \<open>-1\<close>, one returns \<^verbatim>\<open>SSH_FX_NO_SUCH_FILE\<close>).
\<close>

definition example_env :: env where
  "example_env =
    \<lparr>sftpv3 = \<lparr>commands =
                 [\<lparr>type = 1, handler = Sftp_init\<rparr>,
                  \<lparr>type = 14, handler = External (\<lambda>job s. (SSH_FX_FILE_ALREADY_EXISTS, s))\<rparr>,
                  \<lparr>type = 17, handler = External (\<lambda>job s. (-1, s\<lparr>errno := 2\<rparr>))\<rparr>],
               version = 3, maxstatus = SSH_FX_OP_UNSUPPORTED, extensions = []\<rparr>,
     sftpv4 = \<lparr>commands = [\<lparr>type = 1, handler = Sftp_init\<rparr>],
               version = 4, maxstatus = SSH_FX_NO_MEDIA, extensions = []\<rparr>,
     sftpv5 = \<lparr>commands = [\<lparr>type = 1, handler = Sftp_init\<rparr>],
               version = 5, maxstatus = SSH_FX_LOCK_CONFLICT, extensions = [''space-available'']\<rparr>,
     sftpv6 = \<lparr>commands =
                 [\<lparr>type = 1, handler = Sftp_init\<rparr>,
                  \<lparr>type = 17, handler = External (\<lambda>job s. (SSH_FX_NO_SUCH_FILE, s))\<rparr>],
               version = 6, maxstatus = SSH_FX_NO_MATCHING_BYTE_RANGE_LOCK,
               extensions = [''space-available'', ''version-select'']\<rparr>,
     HANDLER_RESPONDED = -2,
     REVERSE_SYMLINK = True,
     VERSION = ''0.1'',
     strerror = (\<lambda>e. if e = 2 then ''No such file or directory'' else ''Unknown error''),
     EPERM = 1, EACCES = 13, ENOENT = 2, EIO = 5, ENOSPC = 28, ENOTDIR = 20, EISDIR = 21,
     EEXIST = 17, EROFS = 30, ELOOP = 40, ENAMETOOLONG = 36, ENOTEMPTY = 39, EDQUOT = 122\<rparr>"

definition example_state :: "protocol_ptr \<Rightarrow> server_state" where
  "example_state p =
    \<lparr>protocol = p, workqueue = None, reverse_symlink = False, errno = 0, sent = []\<rparr>"

definition example_job :: sftpjob where
  "example_job = \<lparr>data = [17, 0, 0, 0, 7], ptr = [], jobid = 7\<rparr>"

section \<open>Properties\<close>

subsection \<open>Facts about the status translator\<close>

text \<open>The values of the packet types and status codes, to unfold together.\<close>

lemmas sftp_h =
  SSH_FXP_INIT_def SSH_FXP_VERSION_def SSH_FXP_STATUS_def
  SSH_FX_OK_def SSH_FX_EOF_def SSH_FX_NO_SUCH_FILE_def SSH_FX_PERMISSION_DENIED_def
  SSH_FX_FAILURE_def SSH_FX_BAD_MESSAGE_def SSH_FX_NO_CONNECTION_def
  SSH_FX_CONNECTION_LOST_def SSH_FX_OP_UNSUPPORTED_def SSH_FX_INVALID_HANDLE_def
  SSH_FX_NO_SUCH_PATH_def SSH_FX_FILE_ALREADY_EXISTS_def SSH_FX_WRITE_PROTECT_def
  SSH_FX_NO_MEDIA_def SSH_FX_NO_SPACE_ON_FILESYSTEM_def SSH_FX_QUOTA_EXCEEDED_def
  SSH_FX_UNKNOWN_PRINCIPAL_def SSH_FX_LOCK_CONFLICT_def SSH_FX_DIR_NOT_EMPTY_def
  SSH_FX_NOT_A_DIRECTORY_def SSH_FX_INVALID_FILENAME_def SSH_FX_LINK_LOOP_def
  SSH_FX_CANNOT_DELETE_def SSH_FX_INVALID_PARAMETER_def SSH_FX_FILE_IS_A_DIRECTORY_def
  SSH_FX_BYTE_RANGE_LOCK_CONFLICT_def SSH_FX_BYTE_RANGE_LOCK_REFUSED_def
  SSH_FX_DELETE_PENDING_def SSH_FX_FILE_CORRUPT_def SSH_FX_OWNER_INVALID_def
  SSH_FX_GROUP_INVALID_def SSH_FX_NO_MATCHING_BYTE_RANGE_LOCK_def

declare send_status.simps [simp del] send_errno_status.simps [simp del]
declare locate.simps [simp del] sftp_service_loop.simps [simp del]

lemma status_to_string_nonempty: "status_to_string status \<noteq> []"
  by (simp add: status_to_string_def)

lemma status_to_string_failure:
  "status_to_string status = status_to_string SSH_FX_FAILURE \<longleftrightarrow> status = SSH_FX_FAILURE"
  by (simp add: status_to_string_def sftp_h)

lemma errnotab_find_Some:
  "\<exists>st. errnotab_find (errnotab E) e = Some st \<and> st \<noteq> -1 \<and> st \<le> SSH_FX_FILE_CORRUPT"
  by (simp add: errnotab_def sftp_h)

lemma send_status_plain:
  "status \<noteq> -1 \<Longrightarrow>
   send_status E job status msg s =
     s\<lparr>sent := sent s @
       [[U8 SSH_FXP_STATUS, U32 (jobid job),
         U32 (if maxstatus (deref E (protocol s)) < status then SSH_FX_FAILURE else status),
         Str (case msg of None \<Rightarrow> status_to_string status | Some m \<Rightarrow> m),
         Str ''en'']]\<rparr>"
  by (simp add: send_status.simps Let_def)

lemma send_status_errno:
  "send_status E job (-1) msg s = send_errno_status E job s"
  by (simp add: send_status.simps)

lemma send_errno_status_plain:
  "errnotab_find (errnotab E) (errno s) = Some st \<Longrightarrow>
   send_errno_status E job s = send_status E job st (Some (strerror E (errno s))) s"
  by (simp add: send_errno_status.simps)

lemma send_status_cases:
  "\<exists>st m.
     (status \<noteq> -1 \<longrightarrow>
        st = status \<and> m = (case msg of None \<Rightarrow> status_to_string status | Some m' \<Rightarrow> m'))
     \<and> (status = -1 \<longrightarrow>
        errnotab_find (errnotab E) (errno s) = Some st \<and> m = strerror E (errno s))
     \<and> send_status E job status msg s =
         s\<lparr>sent := sent s @
           [[U8 SSH_FXP_STATUS, U32 (jobid job),
             U32 (if maxstatus (deref E (protocol s)) < st then SSH_FX_FAILURE else st),
             Str m, Str ''en'']]\<rparr>"
proof (cases "status = -1")
  case False
  then show ?thesis
    using send_status_plain [OF False, of E job msg s] by simp
next
  case True
  obtain st where st: "errnotab_find (errnotab E) (errno s) = Some st" "st \<noteq> -1"
    using errnotab_find_Some by blast
  have "send_status E job status msg s =
      s\<lparr>sent := sent s @ [[U8 SSH_FXP_STATUS, U32 (jobid job),
         U32 (if maxstatus (deref E (protocol s)) < st then SSH_FX_FAILURE else st),
         Str (strerror E (errno s)), Str ''en'']]\<rparr>"
    using True st send_status_plain [OF st(2), of E job "Some (strerror E (errno s))" s]
    by (simp add: send_status_errno send_errno_status_plain)
  with True st show ?thesis by blast
qed

lemma send_status_sent:
  "\<exists>code m. sent (send_status E job status msg s) =
     sent s @ [[U8 SSH_FXP_STATUS, U32 (jobid job), U32 code, Str m, Str ''en'']]"
proof -
  obtain st m where
    "send_status E job status msg s =
       s\<lparr>sent := sent s @
         [[U8 SSH_FXP_STATUS, U32 (jobid job),
           U32 (if maxstatus (deref E (protocol s)) < st then SSH_FX_FAILURE else st),
           Str m, Str ''en'']]\<rparr>"
    using send_status_cases [of status msg E s job] by blast
  then show ?thesis by simp
qed

subsection \<open>Facts about the search for the handler\<close>

lemma locate_absent:
  "type' \<notin> type ` set cmds \<Longrightarrow> locate cmds type' l r = None"
proof (induction cmds type' l r rule: locate.induct)
  case (1 cmds type' l r)
  show ?case
  proof (cases "l \<le> r \<and> \<not> ((l + r) div 2 < 0 \<or> int (length cmds) \<le> (l + r) div 2)")
    case False
    then show ?thesis
      by (subst locate.simps) (auto simp: Let_def)
  next
    case True
    let ?m = "(l + r) div 2"
    have mem: "cmds ! nat ?m \<in> set cmds"
      using True by (intro nth_mem) linarith
    then have ne: "type (cmds ! nat ?m) \<noteq> type'"
      using "1.prems" by auto
    show ?thesis
    proof (cases "type' < type (cmds ! nat ?m)")
      case lt: True
      have "locate cmds type' l (?m - 1) = None"
        using "1.IH"(1) [OF _ refl _ refl lt] True "1.prems" by simp
      then show ?thesis
        using True lt by (subst locate.simps) (simp add: Let_def)
    next
      case ge: False
      then have gt: "type' > type (cmds ! nat ?m)"
        using ne by simp
      have "locate cmds type' (?m + 1) r = None"
        using "1.IH"(2) [OF _ refl _ refl ge gt] True "1.prems" by simp
      then show ?thesis
        using True ge gt by (subst locate.simps) (simp add: Let_def)
    qed
  qed
qed

lemma locate_sorted:
  "sorted_wrt (<) (map type cmds) \<Longrightarrow> 0 \<le> l \<Longrightarrow> r < int (length cmds) \<Longrightarrow>
   l \<le> int k \<Longrightarrow> int k \<le> r \<Longrightarrow>
   locate cmds (type (cmds ! k)) l r = Some k"
proof (induction cmds "type (cmds ! k)" l r rule: locate.induct)
  case (1 cmds l r)
  let ?m = "(l + r) div 2"
  have lr: "l \<le> r" using "1.prems" by linarith
  have m: "0 \<le> ?m" "?m < int (length cmds)" "l \<le> ?m" "?m \<le> r"
    using "1.prems" by linarith+
  have k: "k < length cmds" using "1.prems" by linarith
  have mn: "nat ?m < length cmds" using m by linarith
  have mono: "\<And>i j. i < j \<Longrightarrow> j < length cmds \<Longrightarrow> type (cmds ! i) < type (cmds ! j)"
    using "1.prems"(1) by (simp add: sorted_wrt_iff_nth_less)
  show ?case
  proof (cases "type (cmds ! k) < type (cmds ! nat ?m)")
    case lt: True
    have "k < nat ?m"
    proof (rule ccontr)
      assume "\<not> k < nat ?m"
      then have "nat ?m = k \<or> nat ?m < k" by linarith
      then show False using lt mono [of "nat ?m" k] k by auto
    qed
    then have "int k \<le> ?m - 1" using m by linarith
    then have "locate cmds (type (cmds ! k)) l (?m - 1) = Some k"
      using "1.hyps"(1) [OF lr refl _ refl lt] m "1.prems" by simp
    then show ?thesis
      using lr m lt by (subst locate.simps) (simp add: Let_def)
  next
    case ge: False
    show ?thesis
    proof (cases "type (cmds ! k) > type (cmds ! nat ?m)")
      case gt: True
      have "nat ?m < k"
      proof (rule ccontr)
        assume "\<not> nat ?m < k"
        then have "nat ?m = k \<or> k < nat ?m" by linarith
        then show False using gt mono [of k "nat ?m"] mn by auto
      qed
      then have "?m + 1 \<le> int k" using m by linarith
      then have "locate cmds (type (cmds ! k)) (?m + 1) r = Some k"
        using "1.hyps"(2) [OF lr refl _ refl ge gt] m "1.prems" by simp
      then show ?thesis
        using lr m ge gt by (subst locate.simps) (simp add: Let_def)
    next
      case False
      with ge have eq: "type (cmds ! k) = type (cmds ! nat ?m)" by simp
      have "nat ?m = k"
      proof (rule ccontr)
        assume "nat ?m \<noteq> k"
        then have "nat ?m < k \<or> k < nat ?m" by linarith
        then show False using eq mono [of "nat ?m" k] mono [of k "nat ?m"] k mn by auto
      qed
      then show ?thesis
        using lr m eq by (subst locate.simps) (simp add: Let_def)
    qed
  qed
qed

subsection \<open>Facts about the processing of a job\<close>

lemma sent_job_done: "sent (job_done type' s) = sent s"
  by (simp add: job_done_def queue_init_def)

lemma sftpjob_updates:
  "job\<lparr>jobid := a, ptr := b\<rparr> = \<lparr>data = data job, ptr = b, jobid = a\<rparr>"
  "job\<lparr>ptr := b, jobid := a\<rparr> = \<lparr>data = data job, ptr = b, jobid = a\<rparr>"
  by (cases job; simp)+

lemma process_sftpjob_empty:
  "data job = [] \<Longrightarrow>
   process_sftpjob E job s =
     job_done 0 (send_status E \<lparr>data = [], ptr = [], jobid = 0\<rparr> SSH_FX_BAD_MESSAGE
                  (Some ''empty request'') s)"
  by (simp add: process_sftpjob_def Let_def sftpjob_updates)

lemma process_sftpjob_init:
  "data job = t # rest \<Longrightarrow> unat t = SSH_FXP_INIT \<Longrightarrow>
   process_sftpjob E job s =
     job_done (unat t) (dispatch E (unat t) \<lparr>data = data job, ptr = rest, jobid = 0\<rparr> s)"
  by (simp add: process_sftpjob_def Let_def sftpjob_updates)

lemma process_sftpjob_no_id:
  "data job = t # rest \<Longrightarrow> unat t \<noteq> SSH_FXP_INIT \<Longrightarrow> length rest < 4 \<Longrightarrow>
   process_sftpjob E job s =
     job_done (unat t) (send_status E \<lparr>data = data job, ptr = rest, jobid = 0\<rparr> SSH_FX_BAD_MESSAGE
                          (Some ''missing ID field'') s)"
  by (auto simp: process_sftpjob_def parse_uint32_def Let_def sftpjob_updates split: list.splits)

lemma process_sftpjob_id:
  "data job = t # b0 # b1 # b2 # b3 # rest \<Longrightarrow> unat t \<noteq> SSH_FXP_INIT \<Longrightarrow>
   process_sftpjob E job s =
     job_done (unat t)
       (dispatch E (unat t) \<lparr>data = data job, ptr = rest, jobid = get32 b0 b1 b2 b3\<rparr> s)"
  by (simp add: process_sftpjob_def parse_uint32_def Let_def sftpjob_updates)

lemma dispatch_absent:
  "ty \<notin> type ` set (commands (deref E (protocol s))) \<Longrightarrow>
   dispatch E ty job s = send_status E job SSH_FX_OP_UNSUPPORTED None s"
  by (simp add: dispatch_def locate_absent)

lemma dispatch_present:
  assumes "sorted_wrt (<) (map type (commands (deref E (protocol s))))"
    and "k < length (commands (deref E (protocol s)))"
  shows "dispatch E (type (commands (deref E (protocol s)) ! k)) job s =
    (case run_handler E (handler (commands (deref E (protocol s)) ! k)) job s of
       (status, s') \<Rightarrow>
         if status = HANDLER_RESPONDED E then s' else send_status E job status None s')"
proof -
  have "locate (commands (deref E (protocol s))) (type (commands (deref E (protocol s)) ! k))
          0 (ncommands (deref E (protocol s)) - 1) = Some k"
    using assms by (intro locate_sorted) (simp_all add: ncommands_def)
  then show ?thesis by (simp add: dispatch_def)
qed

lemma process_sftpjob_ends_at_done:
  "data job = t # rest \<Longrightarrow> \<exists>s'. process_sftpjob E job s = job_done (unat t) s'"
  by (auto simp: process_sftpjob_def Let_def split: sum.splits)

subsection \<open>Facts about initialization\<close>

lemma sftp_init_not_preinit:
  "protocol s \<noteq> Preinit \<Longrightarrow> sftp_init E job s = (SSH_FX_FAILURE, s)"
  by (simp add: sftp_init_def)

lemma sftp_init_short:
  "protocol s = Preinit \<Longrightarrow> length (ptr job) < 4 \<Longrightarrow>
   sftp_init E job s = (SSH_FX_BAD_MESSAGE, s)"
  by (auto simp: sftp_init_def parse_uint32_def split: list.splits)

lemma sftp_init_version:
  "protocol s = Preinit \<Longrightarrow> ptr job = b0 # b1 # b2 # b3 # rest \<Longrightarrow>
   sftp_init E job s =
     (let v = get32 b0 b1 b2 b3 in
      if v = 0 \<or> v = 1 \<or> v = 2 then (SSH_FX_OP_UNSUPPORTED, s)
      else
        let p = (if v = 3 then V3 else if v = 4 then V4 else if v = 5 then V5 else V6);
            rs = (if v = 3 \<and> REVERSE_SYMLINK E then True else reverse_symlink s)
        in (HANDLER_RESPONDED E,
            s\<lparr>protocol := p,
              workqueue := (if version (deref E p) < 6 then Some [] else workqueue s),
              reverse_symlink := rs,
              sent := sent s @ [version_response E (deref E p) rs]\<rparr>))"
  by (simp add: sftp_init_def parse_uint32_def Let_def queue_init_def)

lemma word_le_2_cases: "(v :: uint32) \<le> 2 \<longleftrightarrow> v = 0 \<or> v = 1 \<or> v = 2"
  by (simp add: word_le_nat_alt word_unat_eq_iff) linarith

lemma word_ge_6_cases: "(6 :: uint32) \<le> v \<longleftrightarrow> \<not> (v \<le> 2 \<or> v = 3 \<or> v = 4 \<or> v = 5)"
  by (simp add: word_le_nat_alt word_unat_eq_iff) linarith

subsection \<open>Facts about the server loop\<close>

lemma sftp_service_loop_eof:
  "sftp_service_loop E [] s = (Shutdown, s)"
  by (simp add: sftp_service_loop.simps do_read_def)

lemma sftp_service_loop_zero:
  "get32 b0 b1 b2 b3 = 0 \<Longrightarrow>
   sftp_service_loop E (b0 # b1 # b2 # b3 # rest) s = (Fatal ''zero length job'', s)"
  by (simp add: sftp_service_loop.simps do_read_def ntohl_def)

lemma sftp_service_loop_truncated:
  "get32 b0 b1 b2 b3 \<noteq> 0 \<Longrightarrow> length rest < unat (get32 b0 b1 b2 b3) \<Longrightarrow>
   sftp_service_loop E (b0 # b1 # b2 # b3 # rest) s =
     (Fatal ''read error: unexpected eof'', s)"
  by (simp add: sftp_service_loop.simps do_read_def ntohl_def)

lemma sftp_service_loop_packet:
  "get32 b0 b1 b2 b3 \<noteq> 0 \<Longrightarrow> unat (get32 b0 b1 b2 b3) \<le> length rest \<Longrightarrow>
   sftp_service_loop E (b0 # b1 # b2 # b3 # rest) s =
     sftp_service_loop E (drop (unat (get32 b0 b1 b2 b3)) rest)
       (if workqueue s \<noteq> None
        then queue_add \<lparr>data = take (unat (get32 b0 b1 b2 b3)) rest, ptr = [], jobid = 0\<rparr> s
        else process_sftpjob E
               \<lparr>data = take (unat (get32 b0 b1 b2 b3)) rest, ptr = [], jobid = 0\<rparr> s)"
  by (subst sftp_service_loop.simps) (simp add: do_read_def ntohl_def Let_def)

subsection \<open>Claims\<close>

text \<open>
  C3. Every status response that \<^verbatim>\<open>send_status\<close> sends carries a code that does
  not exceed \<^verbatim>\<open>maxstatus\<close> of the active table, provided that table admits
  \<^verbatim>\<open>SSH_FX_FAILURE\<close> at all (the pre-init table does; the versioned tables are
  parameters). The status \<open>st\<close> to send is the one given, or for the all-ones value
  the one the table gives for \<^verbatim>\<open>errno\<close>; above \<^verbatim>\<open>maxstatus\<close> it is sent as
  \<^verbatim>\<open>SSH_FX_FAILURE\<close>, otherwise as it is. With a status and no message given, the
  message sent is not empty. The instance is the spec's:
  version 3, \<^verbatim>\<open>maxstatus\<close> 8, status 11 goes out as code 4 with a message.
\<close>

theorem send_status_within_maxstatus:
  assumes "SSH_FX_FAILURE \<le> maxstatus (deref E (protocol s))"
  shows "\<exists>st code m.
    (status \<noteq> -1 \<longrightarrow> st = status)
    \<and> (status = -1 \<longrightarrow> errnotab_find (errnotab E) (errno s) = Some st)
    \<and> send_status E job status msg s =
      s\<lparr>sent := sent s @ [[U8 SSH_FXP_STATUS, U32 (jobid job), U32 code, Str m, Str ''en'']]\<rparr>
    \<and> code \<le> maxstatus (deref E (protocol s))
    \<and> (maxstatus (deref E (protocol s)) < st \<longrightarrow> code = SSH_FX_FAILURE)
    \<and> (st \<le> maxstatus (deref E (protocol s)) \<longrightarrow> code = st)
    \<and> (status \<noteq> -1 \<and> msg = None \<longrightarrow> m \<noteq> [])"
proof -
  obtain st m where
    st: "status \<noteq> -1 \<longrightarrow>
           st = status \<and> m = (case msg of None \<Rightarrow> status_to_string status | Some m' \<Rightarrow> m')"
      "status = -1 \<longrightarrow> errnotab_find (errnotab E) (errno s) = Some st"
    and eq: "send_status E job status msg s =
       s\<lparr>sent := sent s @
         [[U8 SSH_FXP_STATUS, U32 (jobid job),
           U32 (if maxstatus (deref E (protocol s)) < st then SSH_FX_FAILURE else st),
           Str m, Str ''en'']]\<rparr>"
    using send_status_cases [of status msg E s job] by blast
  let ?code = "if maxstatus (deref E (protocol s)) < st then SSH_FX_FAILURE else st"
  have le: "?code \<le> maxstatus (deref E (protocol s))"
    using assms by (simp add: not_less)
  have m: "status \<noteq> -1 \<and> msg = None \<longrightarrow> m \<noteq> []"
    using st(1) by (simp add: status_to_string_nonempty)
  show ?thesis
    apply (rule exI [of _ st])
    apply (rule exI [of _ ?code])
    apply (rule exI [of _ m])
    using st eq le m by auto
qed

theorem send_status_within_maxstatus_witness:
  "SSH_FX_FAILURE \<le> maxstatus (deref example_env (protocol (example_state V3)))
   \<and> maxstatus (deref example_env (protocol (example_state V3))) = 8
   \<and> send_status example_env example_job 11 None (example_state V3) =
       (example_state V3)\<lparr>sent :=
         [[U8 101, U32 7, U32 4, Str ''file already exists'', Str ''en'']]\<rparr>"
  using send_status_within_maxstatus
    [where E = example_env and s = "example_state V3" and job = example_job
       and status = 11 and msg = None]
  by (simp add: send_status_plain example_env_def example_state_def example_job_def
      deref_def sftp_h status_to_string_def)

text \<open>
  C6. Every status response has the fields type \<^verbatim>\<open>SSH_FXP_STATUS\<close>, request ID, status
  code, message, language, in this order, and the language is \<open>en\<close>. With a status
  code and no message given, the message is the one \<^verbatim>\<open>status_to_string\<close> has for
  the status given, which is never empty; a message given is sent as it is; and for
  the all-ones value, which asks for the translation of \<^verbatim>\<open>errno\<close>, the message is
  the text \<^verbatim>\<open>strerror\<close> has for \<^verbatim>\<open>errno\<close>.
\<close>

theorem status_response_fields:
  "\<exists>code m.
    send_status E job status msg s =
      s\<lparr>sent := sent s @ [[U8 SSH_FXP_STATUS, U32 (jobid job), U32 code, Str m, Str ''en'']]\<rparr>
    \<and> (status \<noteq> -1 \<and> msg = None \<longrightarrow> m = status_to_string status \<and> m \<noteq> [])
    \<and> (status \<noteq> -1 \<longrightarrow> (\<forall>m'. msg = Some m' \<longrightarrow> m = m'))
    \<and> (status = -1 \<longrightarrow> m = strerror E (errno s))"
proof -
  obtain st m where
    st: "status \<noteq> -1 \<longrightarrow>
           st = status \<and> m = (case msg of None \<Rightarrow> status_to_string status | Some m' \<Rightarrow> m')"
      "status = -1 \<longrightarrow>
           errnotab_find (errnotab E) (errno s) = Some st \<and> m = strerror E (errno s)"
    and eq: "send_status E job status msg s =
       s\<lparr>sent := sent s @
         [[U8 SSH_FXP_STATUS, U32 (jobid job),
           U32 (if maxstatus (deref E (protocol s)) < st then SSH_FX_FAILURE else st),
           Str m, Str ''en'']]\<rparr>"
    using send_status_cases [of status msg E s job] by blast
  have "status \<noteq> -1 \<and> msg = None \<longrightarrow> m = status_to_string status \<and> m \<noteq> []"
    using st(1) by (simp add: status_to_string_nonempty)
  moreover have "status \<noteq> -1 \<longrightarrow> (\<forall>m'. msg = Some m' \<longrightarrow> m = m')"
    using st(1) by simp
  ultimately show ?thesis
    using eq st(2) by blast
qed

theorem status_response_fields_witness:
  "send_status example_env example_job SSH_FX_EOF None (example_state V4) =
     (example_state V4)\<lparr>sent := [[U8 101, U32 7, U32 1, Str ''end of file'', Str ''en'']]\<rparr>
   \<and> send_status example_env example_job SSH_FX_BAD_MESSAGE (Some ''empty request'')
        (example_state Preinit) =
     (example_state Preinit)\<lparr>sent := [[U8 101, U32 7, U32 5, Str ''empty request'', Str ''en'']]\<rparr>
   \<and> send_status example_env example_job (-1) None ((example_state V4)\<lparr>errno := 2\<rparr>) =
     (example_state V4)\<lparr>errno := 2,
        sent := [[U8 101, U32 7, U32 2, Str ''No such file or directory'', Str ''en'']]\<rparr>"
  using status_response_fields
    [where E = example_env and job = example_job and status = SSH_FX_EOF and msg = None
       and s = "example_state V4"]
  by (simp add: send_status_plain send_status_errno send_errno_status.simps
      errnotab_def example_env_def example_state_def example_job_def sftppreinit_def
      deref_def sftp_h status_to_string_def)

text \<open>
  C6, read for every status response, does not hold for the all-ones value: with
  \<^verbatim>\<open>errno = ENOENT\<close> and no message given, the message sent is the text of the
  error, which is neither the message \<^verbatim>\<open>status_to_string\<close> has for the code sent
  nor the one it has for the status given.
\<close>

theorem errno_status_message_counterexample:
  "send_status example_env example_job (-1) None ((example_state V4)\<lparr>errno := 2\<rparr>) =
     (example_state V4)\<lparr>errno := 2,
        sent := [[U8 SSH_FXP_STATUS, U32 7, U32 SSH_FX_NO_SUCH_FILE,
                  Str ''No such file or directory'', Str ''en'']]\<rparr>
   \<and> status_to_string SSH_FX_NO_SUCH_FILE = ''file does not exist''
   \<and> status_to_string (-1) = ''unknown status''"
  by (simp add: send_status_plain send_status_errno send_errno_status.simps
      errnotab_def example_env_def example_state_def example_job_def
      deref_def sftp_h status_to_string_def)

text \<open>
  C10. The message is chosen before the status is limited. Sent with no message
  given, a status above \<^verbatim>\<open>maxstatus\<close> of the active table goes out with the code
  \<^verbatim>\<open>SSH_FX_FAILURE\<close> and the message \<^verbatim>\<open>status_to_string\<close> has for the status
  given, which is not the message of \<^verbatim>\<open>SSH_FX_FAILURE\<close> unless the status given
  is \<^verbatim>\<open>SSH_FX_FAILURE\<close> itself. The all-ones value stands for the status the
  table gives for \<^verbatim>\<open>errno\<close>: when that is above \<^verbatim>\<open>maxstatus\<close>, the code is
  \<^verbatim>\<open>SSH_FX_FAILURE\<close> and the message the text of the error.
\<close>

theorem out_of_range_status_keeps_its_message:
  "(status \<noteq> -1 \<and> maxstatus (deref E (protocol s)) < status \<longrightarrow>
      send_status E job status None s =
        s\<lparr>sent := sent s @ [[U8 SSH_FXP_STATUS, U32 (jobid job), U32 SSH_FX_FAILURE,
                              Str (status_to_string status), Str ''en'']]\<rparr>
      \<and> (status \<noteq> SSH_FX_FAILURE \<longrightarrow>
           status_to_string status \<noteq> status_to_string SSH_FX_FAILURE))
   \<and> (\<forall>st. status = -1 \<and> errnotab_find (errnotab E) (errno s) = Some st
          \<and> maxstatus (deref E (protocol s)) < st \<longrightarrow>
      send_status E job status None s =
        s\<lparr>sent := sent s @ [[U8 SSH_FXP_STATUS, U32 (jobid job), U32 SSH_FX_FAILURE,
                              Str (strerror E (errno s)), Str ''en'']]\<rparr>)"
proof -
  have c1: "status \<noteq> -1 \<and> maxstatus (deref E (protocol s)) < status \<longrightarrow>
      send_status E job status None s =
        s\<lparr>sent := sent s @ [[U8 SSH_FXP_STATUS, U32 (jobid job), U32 SSH_FX_FAILURE,
                              Str (status_to_string status), Str ''en'']]\<rparr>
      \<and> (status \<noteq> SSH_FX_FAILURE \<longrightarrow>
           status_to_string status \<noteq> status_to_string SSH_FX_FAILURE)"
    by (simp add: send_status_plain status_to_string_failure)
  have c2: "\<forall>st. status = -1 \<and> errnotab_find (errnotab E) (errno s) = Some st
          \<and> maxstatus (deref E (protocol s)) < st \<longrightarrow>
      send_status E job status None s =
        s\<lparr>sent := sent s @ [[U8 SSH_FXP_STATUS, U32 (jobid job), U32 SSH_FX_FAILURE,
                              Str (strerror E (errno s)), Str ''en'']]\<rparr>"
  proof (intro allI impI, elim conjE)
    fix st
    assume a: "status = -1" "errnotab_find (errnotab E) (errno s) = Some st"
      "maxstatus (deref E (protocol s)) < st"
    have "st \<noteq> -1"
      using a(2) errnotab_find_Some [of E "errno s"] by auto
    then show "send_status E job status None s =
        s\<lparr>sent := sent s @ [[U8 SSH_FXP_STATUS, U32 (jobid job), U32 SSH_FX_FAILURE,
                              Str (strerror E (errno s)), Str ''en'']]\<rparr>"
      using a by (simp add: send_status_errno send_errno_status_plain send_status_plain)
  qed
  from c1 c2 show ?thesis by blast
qed

theorem out_of_range_status_keeps_its_message_witness:
  "(11 :: uint32) \<noteq> -1 \<and> maxstatus (deref example_env (protocol (example_state V3))) < 11
   \<and> send_status example_env example_job 11 None (example_state V3) =
       (example_state V3)\<lparr>sent :=
         [[U8 101, U32 7, U32 4, Str ''file already exists'', Str ''en'']]\<rparr>
   \<and> status_to_string 4 = ''operation failed''
   \<and> send_status example_env example_job (-1) None ((example_state V3)\<lparr>errno := 17\<rparr>) =
       (example_state V3)\<lparr>errno := 17, sent :=
         [[U8 101, U32 7, U32 4, Str ''Unknown error'', Str ''en'']]\<rparr>"
  using out_of_range_status_keeps_its_message
    [where status = 11 and E = example_env and s = "example_state V3" and job = example_job]
  by (simp add: send_status_errno send_errno_status.simps send_status_plain errnotab_def
      example_env_def example_state_def example_job_def
      deref_def sftp_h status_to_string_def)

text \<open>
  C7. The all-ones status makes \<^verbatim>\<open>send_status\<close> translate \<^verbatim>\<open>errno\<close>: the status
  sent is the one \<^verbatim>\<open>errnotab\<close> has for it (limited to \<^verbatim>\<open>maxstatus\<close> like any
  other), with the text of the error as message. With error numbers that differ
  from each other, from 0 and from \<open>-1\<close>, the table gives: \<^verbatim>\<open>EPERM\<close> and
  \<^verbatim>\<open>EACCES\<close> permission denied, \<^verbatim>\<open>ENOENT\<close> no such file, \<^verbatim>\<open>EIO\<close> file
  corrupt, \<^verbatim>\<open>ENOSPC\<close> no space on filesystem, \<^verbatim>\<open>ENOTDIR\<close> not a directory,
  \<^verbatim>\<open>EISDIR\<close> file is a directory, \<^verbatim>\<open>EEXIST\<close> file already exists,
  \<^verbatim>\<open>EROFS\<close> write protect, \<^verbatim>\<open>ELOOP\<close> link loop, \<^verbatim>\<open>ENAMETOOLONG\<close> invalid
  filename, \<^verbatim>\<open>ENOTEMPTY\<close> directory not empty, \<^verbatim>\<open>EDQUOT\<close> quota exceeded,
  0 (no error) OK, and every other number failure (with distinct numbers the order of
  the tests does not matter). A handler that returns all ones
  gets this translation from \<open>dispatch\<close>, unless all ones is \<^verbatim>\<open>HANDLER_RESPONDED\<close>.
\<close>

theorem errno_translation:
  assumes "distinct [0, EPERM E, EACCES E, ENOENT E, EIO E, ENOSPC E, ENOTDIR E, EISDIR E,
                     EEXIST E, EROFS E, ELOOP E, ENAMETOOLONG E, ENOTEMPTY E, EDQUOT E, -1]"
  shows "\<exists>st.
      errnotab_find (errnotab E) (errno s) = Some st
    \<and> st = (if errno s = 0 then SSH_FX_OK
            else if errno s = EPERM E then SSH_FX_PERMISSION_DENIED
            else if errno s = EACCES E then SSH_FX_PERMISSION_DENIED
            else if errno s = ENOENT E then SSH_FX_NO_SUCH_FILE
            else if errno s = EIO E then SSH_FX_FILE_CORRUPT
            else if errno s = ENOSPC E then SSH_FX_NO_SPACE_ON_FILESYSTEM
            else if errno s = ENOTDIR E then SSH_FX_NOT_A_DIRECTORY
            else if errno s = EISDIR E then SSH_FX_FILE_IS_A_DIRECTORY
            else if errno s = EEXIST E then SSH_FX_FILE_ALREADY_EXISTS
            else if errno s = EROFS E then SSH_FX_WRITE_PROTECT
            else if errno s = ELOOP E then SSH_FX_LINK_LOOP
            else if errno s = ENAMETOOLONG E then SSH_FX_INVALID_FILENAME
            else if errno s = ENOTEMPTY E then SSH_FX_DIR_NOT_EMPTY
            else if errno s = EDQUOT E then SSH_FX_QUOTA_EXCEEDED
            else SSH_FX_FAILURE)
    \<and> send_status E job (-1) msg s =
        s\<lparr>sent := sent s @
          [[U8 SSH_FXP_STATUS, U32 (jobid job),
            U32 (if maxstatus (deref E (protocol s)) < st then SSH_FX_FAILURE else st),
            Str (strerror E (errno s)), Str ''en'']]\<rparr>
    \<and> (\<forall>k. HANDLER_RESPONDED E \<noteq> -1
          \<and> sorted_wrt (<) (map type (commands (deref E (protocol s))))
          \<and> k < length (commands (deref E (protocol s)))
          \<and> fst (run_handler E (handler (commands (deref E (protocol s)) ! k)) job s) = -1
        \<longrightarrow> dispatch E (type (commands (deref E (protocol s)) ! k)) job s =
            send_errno_status E job
              (snd (run_handler E (handler (commands (deref E (protocol s)) ! k)) job s)))"
proof -
  obtain st m where
    st: "errnotab_find (errnotab E) (errno s) = Some st" "m = strerror E (errno s)"
    and eq: "send_status E job (-1) msg s =
       s\<lparr>sent := sent s @
         [[U8 SSH_FXP_STATUS, U32 (jobid job),
           U32 (if maxstatus (deref E (protocol s)) < st then SSH_FX_FAILURE else st),
           Str m, Str ''en'']]\<rparr>"
    using send_status_cases [of "-1" msg E s job] by auto
  have tab: "st = (if errno s = 0 then SSH_FX_OK
            else if errno s = EPERM E then SSH_FX_PERMISSION_DENIED
            else if errno s = EACCES E then SSH_FX_PERMISSION_DENIED
            else if errno s = ENOENT E then SSH_FX_NO_SUCH_FILE
            else if errno s = EIO E then SSH_FX_FILE_CORRUPT
            else if errno s = ENOSPC E then SSH_FX_NO_SPACE_ON_FILESYSTEM
            else if errno s = ENOTDIR E then SSH_FX_NOT_A_DIRECTORY
            else if errno s = EISDIR E then SSH_FX_FILE_IS_A_DIRECTORY
            else if errno s = EEXIST E then SSH_FX_FILE_ALREADY_EXISTS
            else if errno s = EROFS E then SSH_FX_WRITE_PROTECT
            else if errno s = ELOOP E then SSH_FX_LINK_LOOP
            else if errno s = ENAMETOOLONG E then SSH_FX_INVALID_FILENAME
            else if errno s = ENOTEMPTY E then SSH_FX_DIR_NOT_EMPTY
            else if errno s = EDQUOT E then SSH_FX_QUOTA_EXCEEDED
            else SSH_FX_FAILURE)"
  proof -
    have ne: "EPERM E \<noteq> -1" "EACCES E \<noteq> -1" "ENOENT E \<noteq> -1" "EIO E \<noteq> -1"
      "ENOSPC E \<noteq> -1" "ENOTDIR E \<noteq> -1" "EISDIR E \<noteq> -1" "EEXIST E \<noteq> -1"
      "EROFS E \<noteq> -1" "ELOOP E \<noteq> -1" "ENAMETOOLONG E \<noteq> -1" "ENOTEMPTY E \<noteq> -1"
      "EDQUOT E \<noteq> -1"
      using assms by simp_all
    have "errnotab_find (errnotab E) (errno s) = Some (if errno s = 0 then SSH_FX_OK
            else if errno s = EPERM E then SSH_FX_PERMISSION_DENIED
            else if errno s = EACCES E then SSH_FX_PERMISSION_DENIED
            else if errno s = ENOENT E then SSH_FX_NO_SUCH_FILE
            else if errno s = EIO E then SSH_FX_FILE_CORRUPT
            else if errno s = ENOSPC E then SSH_FX_NO_SPACE_ON_FILESYSTEM
            else if errno s = ENOTDIR E then SSH_FX_NOT_A_DIRECTORY
            else if errno s = EISDIR E then SSH_FX_FILE_IS_A_DIRECTORY
            else if errno s = EEXIST E then SSH_FX_FILE_ALREADY_EXISTS
            else if errno s = EROFS E then SSH_FX_WRITE_PROTECT
            else if errno s = ELOOP E then SSH_FX_LINK_LOOP
            else if errno s = ENAMETOOLONG E then SSH_FX_INVALID_FILENAME
            else if errno s = ENOTEMPTY E then SSH_FX_DIR_NOT_EMPTY
            else if errno s = EDQUOT E then SSH_FX_QUOTA_EXCEEDED
            else SSH_FX_FAILURE)"
      unfolding errnotab_def by (simp add: ne)
    with st(1) show ?thesis by simp
  qed
  have disp: "\<forall>k. HANDLER_RESPONDED E \<noteq> -1
          \<and> sorted_wrt (<) (map type (commands (deref E (protocol s))))
          \<and> k < length (commands (deref E (protocol s)))
          \<and> fst (run_handler E (handler (commands (deref E (protocol s)) ! k)) job s) = -1
        \<longrightarrow> dispatch E (type (commands (deref E (protocol s)) ! k)) job s =
            send_errno_status E job
              (snd (run_handler E (handler (commands (deref E (protocol s)) ! k)) job s))"
    by (auto simp: dispatch_present send_status_errno split: prod.splits)
  show ?thesis
    apply (rule exI [of _ st])
    using st tab eq disp by simp
qed

theorem errno_translation_witness:
  "distinct [0, EPERM example_env, EACCES example_env, ENOENT example_env, EIO example_env,
             ENOSPC example_env, ENOTDIR example_env, EISDIR example_env, EEXIST example_env,
             EROFS example_env, ELOOP example_env, ENAMETOOLONG example_env,
             ENOTEMPTY example_env, EDQUOT example_env, -1]
   \<and> errnotab_find (errnotab example_env) (ENOENT example_env) = Some SSH_FX_NO_SUCH_FILE
   \<and> errnotab_find (errnotab example_env) 99 = Some SSH_FX_FAILURE
   \<and> send_status example_env example_job (-1) None ((example_state V3)\<lparr>errno := 2\<rparr>) =
       (example_state V3)\<lparr>errno := 2,
         sent := [[U8 101, U32 7, U32 2, Str ''No such file or directory'', Str ''en'']]\<rparr>
   \<and> dispatch example_env 17 example_job (example_state V3) =
       (example_state V3)\<lparr>errno := 2,
         sent := [[U8 101, U32 7, U32 2, Str ''No such file or directory'', Str ''en'']]\<rparr>"
  using errno_translation
    [where E = example_env and s = "(example_state V3)\<lparr>errno := 2\<rparr>" and job = example_job
       and msg = None]
  by (simp add: send_status_plain send_status_errno send_errno_status.simps
      dispatch_def locate.simps ncommands_def run_handler_def
      errnotab_def example_env_def example_state_def example_job_def
      deref_def sftp_h)

text \<open>
  C4. \<^verbatim>\<open>process_sftpjob\<close> on a job, when the active table admits the status
  \<^verbatim>\<open>SSH_FX_OP_UNSUPPORTED\<close> (the pre-init table does): an empty payload is
  answered with \<^verbatim>\<open>SSH_FX_BAD_MESSAGE\<close>; otherwise the first byte is the type, and
  for a type other than \<^verbatim>\<open>SSH_FXP_INIT\<close> the next four bytes are the request ID,
  with the status of the failed decoding, \<^verbatim>\<open>SSH_FX_BAD_MESSAGE\<close>, sent when they
  are not there; then the command table is searched, a type that is not in it is
  answered with \<^verbatim>\<open>SSH_FX_OP_UNSUPPORTED\<close>, and in a table sorted by type the
  handler of the type is run and its status sent.
\<close>

theorem dispatch_engine:
  assumes "SSH_FX_OP_UNSUPPORTED \<le> maxstatus (deref E (protocol s))"
  shows
   "(data job = [] \<longrightarrow>
       process_sftpjob E job s =
         job_done 0 (s\<lparr>sent := sent s @
           [[U8 SSH_FXP_STATUS, U32 0, U32 SSH_FX_BAD_MESSAGE, Str ''empty request'',
             Str ''en'']]\<rparr>))
    \<and> (\<forall>t rest. data job = t # rest \<and> unat t \<noteq> SSH_FXP_INIT \<and> length rest < 4 \<longrightarrow>
       process_sftpjob E job s =
         job_done (unat t) (s\<lparr>sent := sent s @
           [[U8 SSH_FXP_STATUS, U32 0, U32 SSH_FX_BAD_MESSAGE, Str ''missing ID field'',
             Str ''en'']]\<rparr>))
    \<and> (\<forall>t b0 b1 b2 b3 rest.
         data job = t # b0 # b1 # b2 # b3 # rest \<and> unat t \<noteq> SSH_FXP_INIT \<longrightarrow>
       process_sftpjob E job s =
         job_done (unat t)
           (dispatch E (unat t) \<lparr>data = data job, ptr = rest, jobid = get32 b0 b1 b2 b3\<rparr> s))
    \<and> (\<forall>t rest. data job = t # rest \<and> unat t = SSH_FXP_INIT \<longrightarrow>
       process_sftpjob E job s =
         job_done (unat t) (dispatch E (unat t) \<lparr>data = data job, ptr = rest, jobid = 0\<rparr> s))
    \<and> (\<forall>ty j. ty \<notin> type ` set (commands (deref E (protocol s))) \<longrightarrow>
       dispatch E ty j s =
         s\<lparr>sent := sent s @
           [[U8 SSH_FXP_STATUS, U32 (jobid j), U32 SSH_FX_OP_UNSUPPORTED,
             Str ''operation not supported'', Str ''en'']]\<rparr>)
    \<and> (\<forall>k j. sorted_wrt (<) (map type (commands (deref E (protocol s))))
             \<and> k < length (commands (deref E (protocol s))) \<longrightarrow>
       dispatch E (type (commands (deref E (protocol s)) ! k)) j s =
         (case run_handler E (handler (commands (deref E (protocol s)) ! k)) j s of
            (status, s') \<Rightarrow>
              if status = HANDLER_RESPONDED E then s' else send_status E j status None s'))"
proof -
  let ?max = "maxstatus (deref E (protocol s))"
  have "SSH_FX_BAD_MESSAGE \<le> SSH_FX_OP_UNSUPPORTED"
    by (simp add: sftp_h)
  then have "SSH_FX_BAD_MESSAGE \<le> ?max"
    using assms by (rule order_trans)
  then have bad: "\<not> ?max < SSH_FX_BAD_MESSAGE"
    by (simp add: not_less)
  have uns: "\<not> ?max < SSH_FX_OP_UNSUPPORTED"
    using assms by (simp add: not_less)
  have ne: "SSH_FX_BAD_MESSAGE \<noteq> -1" "SSH_FX_OP_UNSUPPORTED \<noteq> -1"
    by (simp_all add: sftp_h)
  have c1: "data job = [] \<longrightarrow>
       process_sftpjob E job s =
         job_done 0 (s\<lparr>sent := sent s @
           [[U8 SSH_FXP_STATUS, U32 0, U32 SSH_FX_BAD_MESSAGE, Str ''empty request'',
             Str ''en'']]\<rparr>)"
    using bad by (simp add: process_sftpjob_empty send_status_plain [OF ne(1)])
  have c2: "\<forall>t rest. data job = t # rest \<and> unat t \<noteq> SSH_FXP_INIT \<and> length rest < 4 \<longrightarrow>
       process_sftpjob E job s =
         job_done (unat t) (s\<lparr>sent := sent s @
           [[U8 SSH_FXP_STATUS, U32 0, U32 SSH_FX_BAD_MESSAGE, Str ''missing ID field'',
             Str ''en'']]\<rparr>)"
    using bad by (simp add: process_sftpjob_no_id send_status_plain [OF ne(1)])
  have c3: "\<forall>t b0 b1 b2 b3 rest.
         data job = t # b0 # b1 # b2 # b3 # rest \<and> unat t \<noteq> SSH_FXP_INIT \<longrightarrow>
       process_sftpjob E job s =
         job_done (unat t)
           (dispatch E (unat t) \<lparr>data = data job, ptr = rest, jobid = get32 b0 b1 b2 b3\<rparr> s)"
    by (simp add: process_sftpjob_id)
  have c4: "\<forall>t rest. data job = t # rest \<and> unat t = SSH_FXP_INIT \<longrightarrow>
       process_sftpjob E job s =
         job_done (unat t) (dispatch E (unat t) \<lparr>data = data job, ptr = rest, jobid = 0\<rparr> s)"
    using process_sftpjob_init [of job _ _ E s] by auto
  have c5: "\<forall>ty j. ty \<notin> type ` set (commands (deref E (protocol s))) \<longrightarrow>
       dispatch E ty j s =
         s\<lparr>sent := sent s @
           [[U8 SSH_FXP_STATUS, U32 (jobid j), U32 SSH_FX_OP_UNSUPPORTED,
             Str ''operation not supported'', Str ''en'']]\<rparr>"
    using uns
    by (simp add: dispatch_absent send_status_plain [OF ne(2)])
      (simp add: status_to_string_def sftp_h)
  have c6: "\<forall>k j. sorted_wrt (<) (map type (commands (deref E (protocol s))))
             \<and> k < length (commands (deref E (protocol s))) \<longrightarrow>
       dispatch E (type (commands (deref E (protocol s)) ! k)) j s =
         (case run_handler E (handler (commands (deref E (protocol s)) ! k)) j s of
            (status, s') \<Rightarrow>
              if status = HANDLER_RESPONDED E then s' else send_status E j status None s')"
    using dispatch_present [of E s] by blast
  from c1 c2 c3 c4 c5 c6 show ?thesis by blast
qed


theorem dispatch_engine_witness:
  "SSH_FX_OP_UNSUPPORTED \<le> maxstatus (deref example_env (protocol (example_state V3)))
   \<and> process_sftpjob example_env \<lparr>data = [], ptr = [], jobid = 0\<rparr>
        ((example_state V3)\<lparr>workqueue := Some []\<rparr>) =
       (example_state V3)\<lparr>workqueue := Some [],
         sent := [[U8 101, U32 0, U32 5, Str ''empty request'', Str ''en'']]\<rparr>
   \<and> process_sftpjob example_env \<lparr>data = [17, 0, 0], ptr = [], jobid = 0\<rparr>
        ((example_state V3)\<lparr>workqueue := Some []\<rparr>) =
       (example_state V3)\<lparr>workqueue := Some [],
         sent := [[U8 101, U32 0, U32 5, Str ''missing ID field'', Str ''en'']]\<rparr>
   \<and> process_sftpjob example_env \<lparr>data = [99, 0, 0, 1, 2], ptr = [], jobid = 0\<rparr>
        ((example_state V3)\<lparr>workqueue := Some []\<rparr>) =
       (example_state V3)\<lparr>workqueue := Some [],
         sent := [[U8 101, U32 258, U32 8, Str ''operation not supported'', Str ''en'']]\<rparr>
   \<and> process_sftpjob example_env \<lparr>data = [14, 0, 0, 0, 9], ptr = [], jobid = 0\<rparr>
        ((example_state V3)\<lparr>workqueue := Some []\<rparr>) =
       (example_state V3)\<lparr>workqueue := Some [],
         sent := [[U8 101, U32 9, U32 4, Str ''file already exists'', Str ''en'']]\<rparr>"
  using dispatch_engine
    [where E = example_env and s = "(example_state V3)\<lparr>workqueue := Some []\<rparr>"
       and job = "\<lparr>data = [99, 0, 0, 1, 2], ptr = [], jobid = 0\<rparr>"]
  by (simp add: process_sftpjob_def parse_uint32_def get32_def job_done_def Let_def
      send_status_plain dispatch_def locate.simps ncommands_def run_handler_def
      example_env_def example_state_def deref_def sftp_h status_to_string_def)

text \<open>
  C5. The request ID of a status response that \<^verbatim>\<open>process_sftpjob\<close> sends. For a
  type other than \<^verbatim>\<open>SSH_FXP_INIT\<close> followed by four bytes, the ID is the value of
  these bytes, whether the status says that the type has no handler or is the
  status the handler returned (after what the handler has sent itself; nothing is
  added when the handler returns \<^verbatim>\<open>HANDLER_RESPONDED\<close>). For an empty payload
  and for an ID cut short the ID is 0, as it is for \<^verbatim>\<open>SSH_FXP_INIT\<close>, which has
  no ID field.
\<close>

theorem status_response_id:
  "(data job = [] \<longrightarrow>
      (\<exists>code m. sent (process_sftpjob E job s) =
         sent s @ [[U8 SSH_FXP_STATUS, U32 0, U32 code, Str m, Str ''en'']]))
   \<and> (\<forall>t rest. data job = t # rest \<and> unat t \<noteq> SSH_FXP_INIT \<and> length rest < 4 \<longrightarrow>
      (\<exists>code m. sent (process_sftpjob E job s) =
         sent s @ [[U8 SSH_FXP_STATUS, U32 0, U32 code, Str m, Str ''en'']]))
   \<and> (\<forall>t b0 b1 b2 b3 rest.
        data job = t # b0 # b1 # b2 # b3 # rest \<and> unat t \<noteq> SSH_FXP_INIT \<longrightarrow>
      (case locate (commands (deref E (protocol s))) (unat t) 0
              (ncommands (deref E (protocol s)) - 1) of
         None \<Rightarrow>
           \<exists>code m. sent (process_sftpjob E job s) =
             sent s @ [[U8 SSH_FXP_STATUS, U32 (get32 b0 b1 b2 b3), U32 code, Str m,
                        Str ''en'']]
       | Some k \<Rightarrow>
           (case run_handler E (handler (commands (deref E (protocol s)) ! k))
                   \<lparr>data = data job, ptr = rest, jobid = get32 b0 b1 b2 b3\<rparr> s of
              (status, s') \<Rightarrow>
                if status = HANDLER_RESPONDED E then
                  sent (process_sftpjob E job s) = sent s'
                else
                  \<exists>code m. sent (process_sftpjob E job s) =
                    sent s' @ [[U8 SSH_FXP_STATUS, U32 (get32 b0 b1 b2 b3), U32 code, Str m,
                                Str ''en'']])))
   \<and> (\<forall>t rest. data job = t # rest \<and> unat t = SSH_FXP_INIT \<longrightarrow>
      (case locate (commands (deref E (protocol s))) (unat t) 0
              (ncommands (deref E (protocol s)) - 1) of
         None \<Rightarrow>
           \<exists>code m. sent (process_sftpjob E job s) =
             sent s @ [[U8 SSH_FXP_STATUS, U32 0, U32 code, Str m, Str ''en'']]
       | Some k \<Rightarrow>
           (case run_handler E (handler (commands (deref E (protocol s)) ! k))
                   \<lparr>data = data job, ptr = rest, jobid = 0\<rparr> s of
              (status, s') \<Rightarrow>
                if status = HANDLER_RESPONDED E then
                  sent (process_sftpjob E job s) = sent s'
                else
                  \<exists>code m. sent (process_sftpjob E job s) =
                    sent s' @ [[U8 SSH_FXP_STATUS, U32 0, U32 code, Str m, Str ''en'']])))"
proof -
  have disp: "case locate (commands (deref E (protocol s))) ty 0
              (ncommands (deref E (protocol s)) - 1) of
         None \<Rightarrow>
           \<exists>code m. sent (dispatch E ty j s) =
             sent s @ [[U8 SSH_FXP_STATUS, U32 (jobid j), U32 code, Str m, Str ''en'']]
       | Some k \<Rightarrow>
           (case run_handler E (handler (commands (deref E (protocol s)) ! k)) j s of
              (status, s') \<Rightarrow>
                if status = HANDLER_RESPONDED E then sent (dispatch E ty j s) = sent s'
                else
                  \<exists>code m. sent (dispatch E ty j s) =
                    sent s' @ [[U8 SSH_FXP_STATUS, U32 (jobid j), U32 code, Str m,
                                Str ''en'']])" for ty j
    using send_status_sent [of E j]
    by (simp add: dispatch_def split: option.split prod.split)
  have c1: "data job = [] \<longrightarrow>
      (\<exists>code m. sent (process_sftpjob E job s) =
         sent s @ [[U8 SSH_FXP_STATUS, U32 0, U32 code, Str m, Str ''en'']])"
    using send_status_sent [of E "\<lparr>data = [], ptr = [], jobid = 0\<rparr>"]
    by (simp add: process_sftpjob_empty sent_job_done)
  have c2: "\<forall>t rest. data job = t # rest \<and> unat t \<noteq> SSH_FXP_INIT \<and> length rest < 4 \<longrightarrow>
      (\<exists>code m. sent (process_sftpjob E job s) =
         sent s @ [[U8 SSH_FXP_STATUS, U32 0, U32 code, Str m, Str ''en'']])"
  proof (intro allI impI)
    fix t rest
    assume "data job = t # rest \<and> unat t \<noteq> SSH_FXP_INIT \<and> length rest < 4"
    then show "\<exists>code m. sent (process_sftpjob E job s) =
         sent s @ [[U8 SSH_FXP_STATUS, U32 0, U32 code, Str m, Str ''en'']]"
      using send_status_sent [of E "\<lparr>data = data job, ptr = rest, jobid = 0\<rparr>"]
      by (simp add: process_sftpjob_no_id sent_job_done)
  qed
  have c3: "\<forall>t b0 b1 b2 b3 rest.
        data job = t # b0 # b1 # b2 # b3 # rest \<and> unat t \<noteq> SSH_FXP_INIT \<longrightarrow>
      (case locate (commands (deref E (protocol s))) (unat t) 0
              (ncommands (deref E (protocol s)) - 1) of
         None \<Rightarrow>
           \<exists>code m. sent (process_sftpjob E job s) =
             sent s @ [[U8 SSH_FXP_STATUS, U32 (get32 b0 b1 b2 b3), U32 code, Str m,
                        Str ''en'']]
       | Some k \<Rightarrow>
           (case run_handler E (handler (commands (deref E (protocol s)) ! k))
                   \<lparr>data = data job, ptr = rest, jobid = get32 b0 b1 b2 b3\<rparr> s of
              (status, s') \<Rightarrow>
                if status = HANDLER_RESPONDED E then
                  sent (process_sftpjob E job s) = sent s'
                else
                  \<exists>code m. sent (process_sftpjob E job s) =
                    sent s' @ [[U8 SSH_FXP_STATUS, U32 (get32 b0 b1 b2 b3), U32 code, Str m,
                                Str ''en'']]))"
  proof (intro allI impI)
    fix t b0 b1 b2 b3 rest
    assume a: "data job = t # b0 # b1 # b2 # b3 # rest \<and> unat t \<noteq> SSH_FXP_INIT"
    show "case locate (commands (deref E (protocol s))) (unat t) 0
              (ncommands (deref E (protocol s)) - 1) of
         None \<Rightarrow>
           \<exists>code m. sent (process_sftpjob E job s) =
             sent s @ [[U8 SSH_FXP_STATUS, U32 (get32 b0 b1 b2 b3), U32 code, Str m,
                        Str ''en'']]
       | Some k \<Rightarrow>
           (case run_handler E (handler (commands (deref E (protocol s)) ! k))
                   \<lparr>data = data job, ptr = rest, jobid = get32 b0 b1 b2 b3\<rparr> s of
              (status, s') \<Rightarrow>
                if status = HANDLER_RESPONDED E then
                  sent (process_sftpjob E job s) = sent s'
                else
                  \<exists>code m. sent (process_sftpjob E job s) =
                    sent s' @ [[U8 SSH_FXP_STATUS, U32 (get32 b0 b1 b2 b3), U32 code, Str m,
                                Str ''en'']])"
    proof -
      define J where "J = \<lparr>data = data job, ptr = rest, jobid = get32 b0 b1 b2 b3\<rparr>"
      have jid: "jobid J = get32 b0 b1 b2 b3"
        by (simp add: J_def)
      have p: "process_sftpjob E job s = job_done (unat t) (dispatch E (unat t) J s)"
        using a by (simp add: process_sftpjob_id J_def)
      have "case locate (commands (deref E (protocol s))) (unat t) 0
              (ncommands (deref E (protocol s)) - 1) of
         None \<Rightarrow>
           \<exists>code m. sent (process_sftpjob E job s) =
             sent s @ [[U8 SSH_FXP_STATUS, U32 (get32 b0 b1 b2 b3), U32 code, Str m,
                        Str ''en'']]
       | Some k \<Rightarrow>
           (case run_handler E (handler (commands (deref E (protocol s)) ! k)) J s of
              (status, s') \<Rightarrow>
                if status = HANDLER_RESPONDED E then
                  sent (process_sftpjob E job s) = sent s'
                else
                  \<exists>code m. sent (process_sftpjob E job s) =
                    sent s' @ [[U8 SSH_FXP_STATUS, U32 (get32 b0 b1 b2 b3), U32 code, Str m,
                                Str ''en'']])"
        using disp [of "unat t" J] by (simp only: p sent_job_done jid)
      then show ?thesis
        by (simp only: J_def)
    qed
  qed
  have c4: "\<forall>t rest. data job = t # rest \<and> unat t = SSH_FXP_INIT \<longrightarrow>
      (case locate (commands (deref E (protocol s))) (unat t) 0
              (ncommands (deref E (protocol s)) - 1) of
         None \<Rightarrow>
           \<exists>code m. sent (process_sftpjob E job s) =
             sent s @ [[U8 SSH_FXP_STATUS, U32 0, U32 code, Str m, Str ''en'']]
       | Some k \<Rightarrow>
           (case run_handler E (handler (commands (deref E (protocol s)) ! k))
                   \<lparr>data = data job, ptr = rest, jobid = 0\<rparr> s of
              (status, s') \<Rightarrow>
                if status = HANDLER_RESPONDED E then
                  sent (process_sftpjob E job s) = sent s'
                else
                  \<exists>code m. sent (process_sftpjob E job s) =
                    sent s' @ [[U8 SSH_FXP_STATUS, U32 0, U32 code, Str m, Str ''en'']]))"
  proof (intro allI impI)
    fix t rest
    assume a: "data job = t # rest \<and> unat t = SSH_FXP_INIT"
    then have p: "process_sftpjob E job s =
        job_done (unat t) (dispatch E (unat t) \<lparr>data = data job, ptr = rest, jobid = 0\<rparr> s)"
      using process_sftpjob_init [of job t rest E s] by simp
    show "case locate (commands (deref E (protocol s))) (unat t) 0
              (ncommands (deref E (protocol s)) - 1) of
         None \<Rightarrow>
           \<exists>code m. sent (process_sftpjob E job s) =
             sent s @ [[U8 SSH_FXP_STATUS, U32 0, U32 code, Str m, Str ''en'']]
       | Some k \<Rightarrow>
           (case run_handler E (handler (commands (deref E (protocol s)) ! k))
                   \<lparr>data = data job, ptr = rest, jobid = 0\<rparr> s of
              (status, s') \<Rightarrow>
                if status = HANDLER_RESPONDED E then
                  sent (process_sftpjob E job s) = sent s'
                else
                  \<exists>code m. sent (process_sftpjob E job s) =
                    sent s' @ [[U8 SSH_FXP_STATUS, U32 0, U32 code, Str m, Str ''en'']])"
    proof -
      define J where "J = \<lparr>data = data job, ptr = rest, jobid = 0\<rparr>"
      have jid: "jobid J = 0"
        by (simp add: J_def)
      have p': "process_sftpjob E job s = job_done (unat t) (dispatch E (unat t) J s)"
        using p by (simp add: J_def)
      have "case locate (commands (deref E (protocol s))) (unat t) 0
              (ncommands (deref E (protocol s)) - 1) of
         None \<Rightarrow>
           \<exists>code m. sent (process_sftpjob E job s) =
             sent s @ [[U8 SSH_FXP_STATUS, U32 0, U32 code, Str m, Str ''en'']]
       | Some k \<Rightarrow>
           (case run_handler E (handler (commands (deref E (protocol s)) ! k)) J s of
              (status, s') \<Rightarrow>
                if status = HANDLER_RESPONDED E then
                  sent (process_sftpjob E job s) = sent s'
                else
                  \<exists>code m. sent (process_sftpjob E job s) =
                    sent s' @ [[U8 SSH_FXP_STATUS, U32 0, U32 code, Str m, Str ''en'']])"
        using disp [of "unat t" J] by (simp only: p' sent_job_done jid)
      then show ?thesis
        by (simp only: J_def)
    qed
  qed
  from c1 c2 c3 c4 show ?thesis by blast
qed


theorem status_response_id_witness:
  "sent (process_sftpjob example_env \<lparr>data = [99, 0, 0, 1, 2], ptr = [], jobid = 0\<rparr>
          ((example_state V3)\<lparr>workqueue := Some []\<rparr>)) =
     [[U8 101, U32 258, U32 8, Str ''operation not supported'', Str ''en'']]
   \<and> sent (process_sftpjob example_env \<lparr>data = [14, 0, 0, 0, 9], ptr = [], jobid = 0\<rparr>
          ((example_state V3)\<lparr>workqueue := Some []\<rparr>)) =
     [[U8 101, U32 9, U32 4, Str ''file already exists'', Str ''en'']]
   \<and> sent (process_sftpjob example_env \<lparr>data = [17, 0, 0], ptr = [], jobid = 0\<rparr>
          ((example_state V3)\<lparr>workqueue := Some []\<rparr>)) =
     [[U8 101, U32 0, U32 5, Str ''missing ID field'', Str ''en'']]
   \<and> sent (process_sftpjob example_env \<lparr>data = [1, 0, 0, 0, 3], ptr = [], jobid = 0\<rparr>
          ((example_state V3)\<lparr>workqueue := Some []\<rparr>)) =
     [[U8 101, U32 0, U32 4, Str ''operation failed'', Str ''en'']]"
  using status_response_id
    [where E = example_env and s = "(example_state V3)\<lparr>workqueue := Some []\<rparr>"
       and job = "\<lparr>data = [99, 0, 0, 1, 2], ptr = [], jobid = 0\<rparr>"]
  by (simp add: process_sftpjob_def parse_uint32_def get32_def job_done_def Let_def
      send_status_plain dispatch_def locate.simps ncommands_def run_handler_def
      sftp_init_def
      example_env_def example_state_def deref_def sftp_h status_to_string_def)

text \<open>
  C1. \<^verbatim>\<open>sftp_init\<close> succeeds only while \<^verbatim>\<open>protocol\<close> is the pre-init table:
  otherwise it returns \<^verbatim>\<open>SSH_FX_FAILURE\<close> and changes nothing. From the pre-init
  table, the client's versions 0, 1 and 2 return \<^verbatim>\<open>SSH_FX_OP_UNSUPPORTED\<close> and
  change nothing; 3 activates the v3 table, and sets \<^verbatim>\<open>reverse_symlink\<close> when
  \<^verbatim>\<open>REVERSE_SYMLINK\<close> is compiled in; 4 activates v4, 5 activates v5, and every
  version from 6 on activates v6. A version that is cut short returns
  \<^verbatim>\<open>SSH_FX_BAD_MESSAGE\<close> and changes nothing. So a call that changes
  \<^verbatim>\<open>protocol\<close> starts at the pre-init table and leaves it, and after that no
  sequence of calls changes the state again.
\<close>

theorem sftp_init_negotiation:
  "(protocol s \<noteq> Preinit \<longrightarrow> sftp_init E job s = (SSH_FX_FAILURE, s))
   \<and> (protocol s = Preinit \<and> length (ptr job) < 4 \<longrightarrow>
        sftp_init E job s = (SSH_FX_BAD_MESSAGE, s))
   \<and> (\<forall>b0 b1 b2 b3 rest v r s'.
        protocol s = Preinit \<and> ptr job = b0 # b1 # b2 # b3 # rest \<and> v = get32 b0 b1 b2 b3
        \<and> sftp_init E job s = (r, s') \<longrightarrow>
          (v \<le> 2 \<longrightarrow> r = SSH_FX_OP_UNSUPPORTED \<and> s' = s)
        \<and> (v = 3 \<longrightarrow> r = HANDLER_RESPONDED E \<and> protocol s' = V3
               \<and> reverse_symlink s' = (REVERSE_SYMLINK E \<or> reverse_symlink s))
        \<and> (v = 4 \<longrightarrow> r = HANDLER_RESPONDED E \<and> protocol s' = V4
               \<and> reverse_symlink s' = reverse_symlink s)
        \<and> (v = 5 \<longrightarrow> r = HANDLER_RESPONDED E \<and> protocol s' = V5
               \<and> reverse_symlink s' = reverse_symlink s)
        \<and> (6 \<le> v \<longrightarrow> r = HANDLER_RESPONDED E \<and> protocol s' = V6
               \<and> reverse_symlink s' = reverse_symlink s))
   \<and> (protocol (snd (sftp_init E job s)) \<noteq> protocol s \<longrightarrow>
        protocol s = Preinit \<and> protocol (snd (sftp_init E job s)) \<noteq> Preinit)
   \<and> (\<forall>jobs. protocol s \<noteq> Preinit \<longrightarrow>
        fold (\<lambda>j s. snd (sftp_init E j s)) jobs s = s)"
proof -
  have c1: "protocol s \<noteq> Preinit \<longrightarrow> sftp_init E job s = (SSH_FX_FAILURE, s)"
    by (simp add: sftp_init_not_preinit)
  have c2: "protocol s = Preinit \<and> length (ptr job) < 4 \<longrightarrow>
        sftp_init E job s = (SSH_FX_BAD_MESSAGE, s)"
    by (simp add: sftp_init_short)
  have c3: "\<forall>b0 b1 b2 b3 rest v r s'.
        protocol s = Preinit \<and> ptr job = b0 # b1 # b2 # b3 # rest \<and> v = get32 b0 b1 b2 b3
        \<and> sftp_init E job s = (r, s') \<longrightarrow>
          (v \<le> 2 \<longrightarrow> r = SSH_FX_OP_UNSUPPORTED \<and> s' = s)
        \<and> (v = 3 \<longrightarrow> r = HANDLER_RESPONDED E \<and> protocol s' = V3
               \<and> reverse_symlink s' = (REVERSE_SYMLINK E \<or> reverse_symlink s))
        \<and> (v = 4 \<longrightarrow> r = HANDLER_RESPONDED E \<and> protocol s' = V4
               \<and> reverse_symlink s' = reverse_symlink s)
        \<and> (v = 5 \<longrightarrow> r = HANDLER_RESPONDED E \<and> protocol s' = V5
               \<and> reverse_symlink s' = reverse_symlink s)
        \<and> (6 \<le> v \<longrightarrow> r = HANDLER_RESPONDED E \<and> protocol s' = V6
               \<and> reverse_symlink s' = reverse_symlink s)"
  proof (intro allI impI, elim conjE)
    fix b0 b1 b2 b3 rest v r s'
    assume pre: "protocol s = Preinit" and p: "ptr job = b0 # b1 # b2 # b3 # rest"
      and v: "v = get32 b0 b1 b2 b3" and r: "sftp_init E job s = (r, s')"
    note eq = r [unfolded sftp_init_version [OF pre p], folded v]
    have low: "v \<le> 2 \<longrightarrow> r = SSH_FX_OP_UNSUPPORTED \<and> s' = s"
      using eq by (auto simp: word_le_2_cases)
    have v3: "v = 3 \<longrightarrow> r = HANDLER_RESPONDED E \<and> protocol s' = V3
               \<and> reverse_symlink s' = (REVERSE_SYMLINK E \<or> reverse_symlink s)"
      using eq by (auto simp: Let_def split: if_splits)
    have v4: "v = 4 \<longrightarrow> r = HANDLER_RESPONDED E \<and> protocol s' = V4
               \<and> reverse_symlink s' = reverse_symlink s"
      using eq by (auto simp: Let_def)
    have v5: "v = 5 \<longrightarrow> r = HANDLER_RESPONDED E \<and> protocol s' = V5
               \<and> reverse_symlink s' = reverse_symlink s"
      using eq by (auto simp: Let_def)
    have v6: "6 \<le> v \<longrightarrow> r = HANDLER_RESPONDED E \<and> protocol s' = V6
               \<and> reverse_symlink s' = reverse_symlink s"
    proof
      assume "6 \<le> v"
      then have "\<not> (v = 0 \<or> v = 1 \<or> v = 2)" "v \<noteq> 3" "v \<noteq> 4" "v \<noteq> 5"
        by (simp_all add: word_ge_6_cases word_le_2_cases)
      then show "r = HANDLER_RESPONDED E \<and> protocol s' = V6
               \<and> reverse_symlink s' = reverse_symlink s"
        using eq by (auto simp: Let_def)
    qed
    from low v3 v4 v5 v6
    show "(v \<le> 2 \<longrightarrow> r = SSH_FX_OP_UNSUPPORTED \<and> s' = s)
        \<and> (v = 3 \<longrightarrow> r = HANDLER_RESPONDED E \<and> protocol s' = V3
               \<and> reverse_symlink s' = (REVERSE_SYMLINK E \<or> reverse_symlink s))
        \<and> (v = 4 \<longrightarrow> r = HANDLER_RESPONDED E \<and> protocol s' = V4
               \<and> reverse_symlink s' = reverse_symlink s)
        \<and> (v = 5 \<longrightarrow> r = HANDLER_RESPONDED E \<and> protocol s' = V5
               \<and> reverse_symlink s' = reverse_symlink s)
        \<and> (6 \<le> v \<longrightarrow> r = HANDLER_RESPONDED E \<and> protocol s' = V6
               \<and> reverse_symlink s' = reverse_symlink s)"
      by blast
  qed
  have c4: "protocol (snd (sftp_init E job s)) \<noteq> protocol s \<longrightarrow>
        protocol s = Preinit \<and> protocol (snd (sftp_init E job s)) \<noteq> Preinit"
    using sftp_init_not_preinit [of s E job] by (cases "protocol s = Preinit") auto
  have c5: "\<forall>jobs. protocol s \<noteq> Preinit \<longrightarrow>
        fold (\<lambda>j s. snd (sftp_init E j s)) jobs s = s"
  proof (intro allI impI)
    fix jobs
    assume "protocol s \<noteq> Preinit"
    then show "fold (\<lambda>j s. snd (sftp_init E j s)) jobs s = s"
      by (induction jobs) (simp_all add: sftp_init_not_preinit)
  qed
  from c1 c2 c3 c4 c5 show ?thesis by blast
qed


theorem sftp_init_negotiation_witness:
  "sftp_init example_env \<lparr>data = [1, 0, 0, 0, 3], ptr = [0, 0, 0, 3], jobid = 0\<rparr>
     (example_state Preinit) =
     (HANDLER_RESPONDED example_env,
      \<lparr>protocol = V3, workqueue = Some [], reverse_symlink = True, errno = 0,
       sent = [[U8 2, U32 3,
                Str ''vendor-id'',
                Sub [Str ''Green End'', Str ''Green End SFTP Server'', Str ''0.1'', U64 0],
                Str ''symlink-order@rjk.greenend.org.uk'', Str ''targetpath-linkpath'']]\<rparr>)
   \<and> sftp_init example_env \<lparr>data = [1, 0, 0, 0, 3], ptr = [0, 0, 0, 3], jobid = 0\<rparr>
       (example_state V3) = (SSH_FX_FAILURE, example_state V3)
   \<and> sftp_init example_env \<lparr>data = [1, 0, 0, 0, 2], ptr = [0, 0, 0, 2], jobid = 0\<rparr>
       (example_state Preinit) = (SSH_FX_OP_UNSUPPORTED, example_state Preinit)
   \<and> protocol (snd (sftp_init example_env
         \<lparr>data = [1, 0, 0, 1, 0], ptr = [0, 0, 1, 0], jobid = 0\<rparr> (example_state Preinit))) = V6"
  using sftp_init_negotiation
    [where E = example_env and s = "example_state Preinit"
       and job = "\<lparr>data = [1, 0, 0, 0, 3], ptr = [0, 0, 0, 3], jobid = 0\<rparr>"]
  by (simp add: sftp_init_def parse_uint32_def get32_def queue_init_def Let_def
      version_response_def example_env_def example_state_def deref_def sftp_h)

text \<open>
  C9. What a successful \<^verbatim>\<open>sftp_init\<close> sends, when each versioned table carries its
  own version number. For the client's version 3: the type \<^verbatim>\<open>SSH_FXP_VERSION\<close>,
  the version 3, \<open>vendor-id\<close> and \<open>symlink-order\<close>. For 4: the same with
  \<open>newline\<close> first. For 5: \<open>newline\<close>, the \<open>supported\<close> block with
  max-read-size 0 as its fifth field, \<open>vendor-id\<close>, \<open>symlink-order\<close>. From 6 on:
  the version 6, \<open>newline\<close>, the \<open>supported2\<close> block with max-read-size 0 as its
  fifth field, \<open>versions\<close>, \<open>vendor-id\<close>, \<open>symlink-order\<close> and
  \<open>link-order\<close>. The value of \<open>symlink-order\<close> follows \<^verbatim>\<open>reverse_symlink\<close>.
\<close>

theorem version_response_extensions:
  assumes "version (sftpv3 E) = 3" and "version (sftpv4 E) = 4"
    and "version (sftpv5 E) = 5" and "version (sftpv6 E) = 6"
    and "protocol s = Preinit" and "ptr job = b0 # b1 # b2 # b3 # rest"
    and "v = get32 b0 b1 b2 b3" and "s' = snd (sftp_init E job s)"
    and "vendor = [Str ''vendor-id'',
            Sub [Str ''Green End'', Str ''Green End SFTP Server'', Str (VERSION E), U64 0]]"
    and "symlink = [Str ''symlink-order@rjk.greenend.org.uk'',
            Str (if reverse_symlink s' then ''targetpath-linkpath''
                 else ''linkpath-targetpath'')]"
  shows
   "(v = 3 \<longrightarrow> sent s' = sent s @ [[U8 SSH_FXP_VERSION, U32 3] @ vendor @ symlink])
    \<and> (v = 4 \<longrightarrow> sent s' = sent s @
          [[U8 SSH_FXP_VERSION, U32 4, Str ''newline'', Str [CHR 0x0A]] @ vendor @ symlink])
    \<and> (v = 5 \<longrightarrow> sent s' = sent s @
          [[U8 SSH_FXP_VERSION, U32 5, Str ''newline'', Str [CHR 0x0A],
            Str ''supported'',
            Sub ([U32 (SSH_FILEXFER_ATTR_SIZE OR SSH_FILEXFER_ATTR_PERMISSIONS
                       OR SSH_FILEXFER_ATTR_ACCESSTIME OR SSH_FILEXFER_ATTR_MODIFYTIME
                       OR SSH_FILEXFER_ATTR_OWNERGROUP OR SSH_FILEXFER_ATTR_SUBSECOND_TIMES),
                  U32 0,
                  U32 (SSH_FXF_ACCESS_DISPOSITION OR SSH_FXF_APPEND_DATA
                       OR SSH_FXF_APPEND_DATA_ATOMIC OR SSH_FXF_TEXT_MODE),
                  U32 0xFFFFFFFF,
                  U32 0]
                 @ map Str (extensions (sftpv5 E)))]
           @ vendor @ symlink])
    \<and> (6 \<le> v \<longrightarrow> sent s' = sent s @
          [[U8 SSH_FXP_VERSION, U32 6, Str ''newline'', Str [CHR 0x0A],
            Str ''supported2'',
            Sub ([U32 (SSH_FILEXFER_ATTR_SIZE OR SSH_FILEXFER_ATTR_PERMISSIONS
                       OR SSH_FILEXFER_ATTR_ACCESSTIME OR SSH_FILEXFER_ATTR_MODIFYTIME
                       OR SSH_FILEXFER_ATTR_OWNERGROUP OR SSH_FILEXFER_ATTR_SUBSECOND_TIMES),
                  U32 0,
                  U32 (SSH_FXF_ACCESS_DISPOSITION OR SSH_FXF_APPEND_DATA
                       OR SSH_FXF_APPEND_DATA_ATOMIC OR SSH_FXF_TEXT_MODE
                       OR SSH_FXF_NOFOLLOW OR SSH_FXF_DELETE_ON_CLOSE),
                  U32 0xFFFFFFFF,
                  U32 0,
                  U16 0,
                  U16 0,
                  U32 0,
                  U32 (of_nat (length (extensions (sftpv6 E))))]
                 @ map Str (extensions (sftpv6 E))),
            Str ''versions'', Str ''3,4,5,6'']
           @ vendor @ symlink
           @ [Str ''link-order@rjk.greenend.org.uk'', Str ''linkpath-targetpath'']])
    \<and> (v \<le> 2 \<longrightarrow> sent s' = sent s)"
proof -
  note eq = sftp_init_version [OF assms(5) assms(6), of E, folded assms(7)]
  have c3: "v = 3 \<longrightarrow> sent s' = sent s @ [[U8 SSH_FXP_VERSION, U32 3] @ vendor @ symlink]"
    using assms(1,8,9,10) eq by (simp add: Let_def deref_def version_response_def)
  have c4: "v = 4 \<longrightarrow> sent s' = sent s @
          [[U8 SSH_FXP_VERSION, U32 4, Str ''newline'', Str [CHR 0x0A]] @ vendor @ symlink]"
    using assms(2,8,9,10) eq by (simp add: Let_def deref_def version_response_def)
  have c5: "v = 5 \<longrightarrow> sent s' = sent s @
          [[U8 SSH_FXP_VERSION, U32 5, Str ''newline'', Str [CHR 0x0A],
            Str ''supported'',
            Sub ([U32 (SSH_FILEXFER_ATTR_SIZE OR SSH_FILEXFER_ATTR_PERMISSIONS
                       OR SSH_FILEXFER_ATTR_ACCESSTIME OR SSH_FILEXFER_ATTR_MODIFYTIME
                       OR SSH_FILEXFER_ATTR_OWNERGROUP OR SSH_FILEXFER_ATTR_SUBSECOND_TIMES),
                  U32 0,
                  U32 (SSH_FXF_ACCESS_DISPOSITION OR SSH_FXF_APPEND_DATA
                       OR SSH_FXF_APPEND_DATA_ATOMIC OR SSH_FXF_TEXT_MODE),
                  U32 0xFFFFFFFF,
                  U32 0]
                 @ map Str (extensions (sftpv5 E)))]
           @ vendor @ symlink]"
    using assms(3,8,9,10) eq by (simp add: Let_def deref_def version_response_def)
  have c6: "6 \<le> v \<longrightarrow> sent s' = sent s @
          [[U8 SSH_FXP_VERSION, U32 6, Str ''newline'', Str [CHR 0x0A],
            Str ''supported2'',
            Sub ([U32 (SSH_FILEXFER_ATTR_SIZE OR SSH_FILEXFER_ATTR_PERMISSIONS
                       OR SSH_FILEXFER_ATTR_ACCESSTIME OR SSH_FILEXFER_ATTR_MODIFYTIME
                       OR SSH_FILEXFER_ATTR_OWNERGROUP OR SSH_FILEXFER_ATTR_SUBSECOND_TIMES),
                  U32 0,
                  U32 (SSH_FXF_ACCESS_DISPOSITION OR SSH_FXF_APPEND_DATA
                       OR SSH_FXF_APPEND_DATA_ATOMIC OR SSH_FXF_TEXT_MODE
                       OR SSH_FXF_NOFOLLOW OR SSH_FXF_DELETE_ON_CLOSE),
                  U32 0xFFFFFFFF,
                  U32 0,
                  U16 0,
                  U16 0,
                  U32 0,
                  U32 (of_nat (length (extensions (sftpv6 E))))]
                 @ map Str (extensions (sftpv6 E))),
            Str ''versions'', Str ''3,4,5,6'']
           @ vendor @ symlink
           @ [Str ''link-order@rjk.greenend.org.uk'', Str ''linkpath-targetpath'']]"
  proof
    assume "6 \<le> v"
    then have ne: "\<not> (v = 0 \<or> v = 1 \<or> v = 2)" "v \<noteq> 3" "v \<noteq> 4" "v \<noteq> 5"
      by (simp_all add: word_ge_6_cases word_le_2_cases)
    show "sent s' = sent s @
          [[U8 SSH_FXP_VERSION, U32 6, Str ''newline'', Str [CHR 0x0A],
            Str ''supported2'',
            Sub ([U32 (SSH_FILEXFER_ATTR_SIZE OR SSH_FILEXFER_ATTR_PERMISSIONS
                       OR SSH_FILEXFER_ATTR_ACCESSTIME OR SSH_FILEXFER_ATTR_MODIFYTIME
                       OR SSH_FILEXFER_ATTR_OWNERGROUP OR SSH_FILEXFER_ATTR_SUBSECOND_TIMES),
                  U32 0,
                  U32 (SSH_FXF_ACCESS_DISPOSITION OR SSH_FXF_APPEND_DATA
                       OR SSH_FXF_APPEND_DATA_ATOMIC OR SSH_FXF_TEXT_MODE
                       OR SSH_FXF_NOFOLLOW OR SSH_FXF_DELETE_ON_CLOSE),
                  U32 0xFFFFFFFF,
                  U32 0,
                  U16 0,
                  U16 0,
                  U32 0,
                  U32 (of_nat (length (extensions (sftpv6 E))))]
                 @ map Str (extensions (sftpv6 E))),
            Str ''versions'', Str ''3,4,5,6'']
           @ vendor @ symlink
           @ [Str ''link-order@rjk.greenend.org.uk'', Str ''linkpath-targetpath'']]"
      using assms(4,8,9,10) eq ne
      by (simp add: Let_def deref_def version_response_def nextensions_def)
  qed
  have c2: "v \<le> 2 \<longrightarrow> sent s' = sent s"
    using assms(8) eq by (auto simp: word_le_2_cases)
  from c3 c4 c5 c6 c2 show ?thesis by blast
qed


theorem version_response_extensions_witness:
  "version (sftpv3 example_env) = 3 \<and> version (sftpv4 example_env) = 4
   \<and> version (sftpv5 example_env) = 5 \<and> version (sftpv6 example_env) = 6
   \<and> protocol (example_state Preinit) = Preinit
   \<and> get32 0 0 0 7 = 7
   \<and> sent (snd (sftp_init example_env
         \<lparr>data = [1, 0, 0, 0, 7], ptr = [0, 0, 0, 7], jobid = 0\<rparr> (example_state Preinit))) =
       [[U8 2, U32 6, Str ''newline'', Str [CHR 0x0A],
         Str ''supported2'',
         Sub [U32 0x1AD, U32 0, U32 0xC3F, U32 0xFFFFFFFF, U32 0, U16 0, U16 0, U32 0, U32 2,
              Str ''space-available'', Str ''version-select''],
         Str ''versions'', Str ''3,4,5,6'',
         Str ''vendor-id'',
         Sub [Str ''Green End'', Str ''Green End SFTP Server'', Str ''0.1'', U64 0],
         Str ''symlink-order@rjk.greenend.org.uk'', Str ''linkpath-targetpath'',
         Str ''link-order@rjk.greenend.org.uk'', Str ''linkpath-targetpath'']]
   \<and> sent (snd (sftp_init example_env
         \<lparr>data = [1, 0, 0, 0, 5], ptr = [0, 0, 0, 5], jobid = 0\<rparr> (example_state Preinit))) =
       [[U8 2, U32 5, Str ''newline'', Str [CHR 0x0A],
         Str ''supported'',
         Sub [U32 0x1AD, U32 0, U32 0x3F, U32 0xFFFFFFFF, U32 0, Str ''space-available''],
         Str ''vendor-id'',
         Sub [Str ''Green End'', Str ''Green End SFTP Server'', Str ''0.1'', U64 0],
         Str ''symlink-order@rjk.greenend.org.uk'', Str ''linkpath-targetpath'']]
   \<and> sent (snd (sftp_init example_env
         \<lparr>data = [1, 0, 0, 0, 3], ptr = [0, 0, 0, 3], jobid = 0\<rparr> (example_state Preinit))) =
       [[U8 2, U32 3,
         Str ''vendor-id'',
         Sub [Str ''Green End'', Str ''Green End SFTP Server'', Str ''0.1'', U64 0],
         Str ''symlink-order@rjk.greenend.org.uk'', Str ''targetpath-linkpath'']]"
  using version_response_extensions
    [where E = example_env and s = "example_state Preinit"
       and job = "\<lparr>data = [1, 0, 0, 0, 7], ptr = [0, 0, 0, 7], jobid = 0\<rparr>"
       and ?b0.0 = 0 and ?b1.0 = 0 and ?b2.0 = 0 and ?b3.0 = 7 and rest = "[]" and v = 7,
     OF _ _ _ _ _ _ _ refl refl refl]
  by (simp add: sftp_init_def parse_uint32_def get32_def queue_init_def Let_def
      version_response_def nextensions_def example_env_def example_state_def deref_def sftp_h
      SSH_FILEXFER_ATTR_SIZE_def SSH_FILEXFER_ATTR_PERMISSIONS_def
      SSH_FILEXFER_ATTR_ACCESSTIME_def SSH_FILEXFER_ATTR_MODIFYTIME_def
      SSH_FILEXFER_ATTR_OWNERGROUP_def SSH_FILEXFER_ATTR_SUBSECOND_TIMES_def
      SSH_FXF_ACCESS_DISPOSITION_def SSH_FXF_APPEND_DATA_def SSH_FXF_APPEND_DATA_ATOMIC_def
      SSH_FXF_TEXT_MODE_def SSH_FXF_NOFOLLOW_def SSH_FXF_DELETE_ON_CLOSE_def)

text \<open>
  C2. A request of a type other than \<^verbatim>\<open>SSH_FXP_INIT\<close> that arrives first on a
  connection: the client sends one packet of length 5 with type 99 and ID 1, then
  closes. The request is processed on the reader's thread and answered with
  \<^verbatim>\<open>SSH_FX_OP_UNSUPPORTED\<close>; at the label \<^verbatim>\<open>done\<close> the type is not
  \<^verbatim>\<open>SSH_FXP_INIT\<close> and \<^verbatim>\<open>workqueue\<close> is null, so the pool is created, while
  \<^verbatim>\<open>protocol\<close> still is the pre-init table.
\<close>

theorem pool_created_before_init:
  "sftp_service E [0, 0, 0, 5, 99, 0, 0, 0, 1] =
     (Shutdown,
      \<lparr>protocol = Preinit, workqueue = Some [], reverse_symlink = False, errno = 0,
       sent = [[U8 SSH_FXP_STATUS, U32 1, U32 SSH_FX_OP_UNSUPPORTED,
                Str ''operation not supported'', Str ''en'']]\<rparr>)"
  by (simp add: sftp_service_def initial_state_def sftp_service_loop.simps do_read_def
      ntohl_def get32_def process_sftpjob_def parse_uint32_def Let_def dispatch_def
      deref_def sftppreinit_def sftppreinittab_def ncommands_def locate.simps
      send_status_plain job_done_def queue_init_def status_to_string_def sftp_h)

text \<open>
  C8. One turn of the loop of \<^verbatim>\<open>sftp_service\<close>, from any state \<open>s\<close> at a packet
  boundary. A length of zero is fatal, and so is an input that ends before the
  declared number of bytes has arrived; in both cases the state is the one before
  the packet, so nothing has been sent for it. The end of the input at the boundary
  leaves the loop for the shutdown. A complete packet is made a job, which is
  processed on the spot or handed to the pool, and the loop goes on at the next
  boundary.
\<close>

theorem framing_errors:
  "(inp = [] \<longrightarrow> sftp_service_loop E inp s = (Shutdown, s))
   \<and> (\<forall>b0 b1 b2 b3 rest. inp = b0 # b1 # b2 # b3 # rest \<and> get32 b0 b1 b2 b3 = 0 \<longrightarrow>
        sftp_service_loop E inp s = (Fatal ''zero length job'', s))
   \<and> (\<forall>b0 b1 b2 b3 rest.
        inp = b0 # b1 # b2 # b3 # rest \<and> get32 b0 b1 b2 b3 \<noteq> 0
        \<and> length rest < unat (get32 b0 b1 b2 b3) \<longrightarrow>
        sftp_service_loop E inp s = (Fatal ''read error: unexpected eof'', s))
   \<and> (\<forall>b0 b1 b2 b3 rest.
        inp = b0 # b1 # b2 # b3 # rest \<and> get32 b0 b1 b2 b3 \<noteq> 0
        \<and> unat (get32 b0 b1 b2 b3) \<le> length rest \<longrightarrow>
        sftp_service_loop E inp s =
          sftp_service_loop E (drop (unat (get32 b0 b1 b2 b3)) rest)
            (if workqueue s \<noteq> None
             then queue_add
                    \<lparr>data = take (unat (get32 b0 b1 b2 b3)) rest, ptr = [], jobid = 0\<rparr> s
             else process_sftpjob E
                    \<lparr>data = take (unat (get32 b0 b1 b2 b3)) rest, ptr = [], jobid = 0\<rparr> s))"
  using sftp_service_loop_packet [of _ _ _ _ _ E s]
  by (simp add: sftp_service_loop_eof sftp_service_loop_zero sftp_service_loop_truncated)

theorem framing_errors_witness:
  "sftp_service example_env [] = (Shutdown, initial_state False 0)
   \<and> sftp_service example_env [0, 0, 0, 0] = (Fatal ''zero length job'', initial_state False 0)
   \<and> sftp_service example_env [0, 0, 0, 5, 1, 0, 0] =
       (Fatal ''read error: unexpected eof'', initial_state False 0)
   \<and> sftp_service example_env [0, 0, 0, 5, 1, 0, 0, 0, 2] =
       (Shutdown,
        (initial_state False 0)\<lparr>sent :=
          [[U8 101, U32 0, U32 8, Str ''operation not supported'', Str ''en'']]\<rparr>)
   \<and> sftp_service example_env [0, 0, 0, 5, 1, 0, 0, 0, 2, 0, 0, 0, 9, 17, 0] =
       (Fatal ''read error: unexpected eof'',
        (initial_state False 0)\<lparr>sent :=
          [[U8 101, U32 0, U32 8, Str ''operation not supported'', Str ''en'']]\<rparr>)"
  using framing_errors [where E = example_env and inp = "[]" and s = "initial_state False 0"]
  by (simp add: sftp_service_def initial_state_def sftp_service_loop.simps do_read_def
      ntohl_def get32_def process_sftpjob_def parse_uint32_def Let_def dispatch_def
      deref_def sftppreinit_def sftppreinittab_def ncommands_def locate.simps
      run_handler_def sftp_init_def example_env_def
      send_status_plain job_done_def queue_init_def status_to_string_def sftp_h)

subsection \<open>Further properties\<close>

text \<open>
  When the pool is created. \<^verbatim>\<open>sftp_init\<close> creates it right after the version
  response when the table it has activated has a version below 6, and leaves
  \<^verbatim>\<open>workqueue\<close> alone for 6 and for the versions it refuses. The code at
  \<^verbatim>\<open>done\<close> leaves \<^verbatim>\<open>workqueue\<close> alone after \<^verbatim>\<open>SSH_FXP_INIT\<close>, and after a
  request of any other type the pool exists: this is where the first request after
  an initialization to version 6 creates it.
\<close>

theorem pool_creation:
  "(\<forall>b0 b1 b2 b3 rest v s'.
       protocol s = Preinit \<and> ptr job = b0 # b1 # b2 # b3 # rest \<and> v = get32 b0 b1 b2 b3
       \<and> s' = snd (sftp_init E job s) \<longrightarrow>
         (v \<le> 2 \<longrightarrow> workqueue s' = workqueue s \<and> sent s' = sent s)
       \<and> (3 \<le> v \<longrightarrow>
            sent s' = sent s @ [version_response E (deref E (protocol s')) (reverse_symlink s')]
            \<and> workqueue s' =
                (if version (deref E (protocol s')) < 6 then Some [] else workqueue s)))
   \<and> (\<forall>t rest. data job = t # rest \<and> unat t = SSH_FXP_INIT \<longrightarrow>
        process_sftpjob E job s =
          dispatch E SSH_FXP_INIT \<lparr>data = data job, ptr = rest, jobid = 0\<rparr> s)
   \<and> (\<forall>t rest. data job = t # rest \<and> unat t \<noteq> SSH_FXP_INIT \<longrightarrow>
        workqueue (process_sftpjob E job s) \<noteq> None)"
proof -
  have c1: "\<forall>b0 b1 b2 b3 rest v s'.
       protocol s = Preinit \<and> ptr job = b0 # b1 # b2 # b3 # rest \<and> v = get32 b0 b1 b2 b3
       \<and> s' = snd (sftp_init E job s) \<longrightarrow>
         (v \<le> 2 \<longrightarrow> workqueue s' = workqueue s \<and> sent s' = sent s)
       \<and> (3 \<le> v \<longrightarrow>
            sent s' = sent s @ [version_response E (deref E (protocol s')) (reverse_symlink s')]
            \<and> workqueue s' =
                (if version (deref E (protocol s')) < 6 then Some [] else workqueue s))"
  proof (intro allI impI, elim conjE)
    fix b0 b1 b2 b3 rest v s'
    assume pre: "protocol s = Preinit" and p: "ptr job = b0 # b1 # b2 # b3 # rest"
      and v: "v = get32 b0 b1 b2 b3" and s': "s' = snd (sftp_init E job s)"
    note eq = sftp_init_version [OF pre p, of E, folded v]
    define q where "q = (if v = 3 then V3 else if v = 4 then V4 else if v = 5 then V5 else V6)"
    define rs where "rs = (if v = 3 \<and> REVERSE_SYMLINK E then True else reverse_symlink s)"
    have ge: "3 \<le> v \<longleftrightarrow> \<not> (v = 0 \<or> v = 1 \<or> v = 2)"
      using word_le_2_cases [of v] by (simp add: word_le_nat_alt) linarith
    have low: "v \<le> 2 \<longrightarrow> workqueue s' = workqueue s \<and> sent s' = sent s"
      using eq by (auto simp: s' word_le_2_cases)
    have hi: "3 \<le> v \<longrightarrow>
            sent s' = sent s @ [version_response E (deref E (protocol s')) (reverse_symlink s')]
            \<and> workqueue s' =
                (if version (deref E (protocol s')) < 6 then Some [] else workqueue s)"
    proof
      assume "3 \<le> v"
      then have "snd (sftp_init E job s) =
          s\<lparr>protocol := q,
            workqueue := (if version (deref E q) < 6 then Some [] else workqueue s),
            reverse_symlink := rs,
            sent := sent s @ [version_response E (deref E q) rs]\<rparr>"
        using eq ge by (simp add: Let_def q_def rs_def)
      then show "sent s' = sent s @ [version_response E (deref E (protocol s')) (reverse_symlink s')]
            \<and> workqueue s' =
                (if version (deref E (protocol s')) < 6 then Some [] else workqueue s)"
        by (simp add: s')
    qed
    from low hi
    show "(v \<le> 2 \<longrightarrow> workqueue s' = workqueue s \<and> sent s' = sent s)
       \<and> (3 \<le> v \<longrightarrow>
            sent s' = sent s @ [version_response E (deref E (protocol s')) (reverse_symlink s')]
            \<and> workqueue s' =
                (if version (deref E (protocol s')) < 6 then Some [] else workqueue s))"
      by blast
  qed
  have c2: "\<forall>t rest. data job = t # rest \<and> unat t = SSH_FXP_INIT \<longrightarrow>
        process_sftpjob E job s =
          dispatch E SSH_FXP_INIT \<lparr>data = data job, ptr = rest, jobid = 0\<rparr> s"
    using process_sftpjob_init [of job _ _ E s] by (auto simp: job_done_def)
  have c3: "\<forall>t rest. data job = t # rest \<and> unat t \<noteq> SSH_FXP_INIT \<longrightarrow>
        workqueue (process_sftpjob E job s) \<noteq> None"
  proof (intro allI impI, elim conjE)
    fix t rest
    assume a: "data job = t # rest" "unat t \<noteq> SSH_FXP_INIT"
    obtain x where "process_sftpjob E job s = job_done (unat t) x"
      using process_sftpjob_ends_at_done [OF a(1)] by blast
    then show "workqueue (process_sftpjob E job s) \<noteq> None"
      using a(2) by (simp add: job_done_def queue_init_def)
  qed
  from c1 c2 c3 show ?thesis by blast
qed


theorem pool_creation_witness:
  "sftp_service example_env [0, 0, 0, 5, 1, 0, 0, 0, 3] =
     (Shutdown,
      \<lparr>protocol = V3, workqueue = Some [], reverse_symlink = True, errno = 0,
       sent = [version_response example_env (sftpv3 example_env) True]\<rparr>)
   \<and> sftp_service example_env [0, 0, 0, 5, 1, 0, 0, 0, 6] =
     (Shutdown,
      \<lparr>protocol = V6, workqueue = None, reverse_symlink = False, errno = 0,
       sent = [version_response example_env (sftpv6 example_env) False]\<rparr>)
   \<and> sftp_service example_env
       ([0, 0, 0, 5, 1, 0, 0, 0, 6]
        @ [0, 0, 0, 13, 17, 0, 0, 0, 5, 0, 0, 0, 4, 47, 116, 109, 112]
        @ [0, 0, 0, 5, 3, 0, 0, 0, 6]) =
     (Shutdown,
      \<lparr>protocol = V6,
       workqueue = Some [\<lparr>data = [3, 0, 0, 0, 6], ptr = [], jobid = 0\<rparr>],
       reverse_symlink = False, errno = 0,
       sent = [version_response example_env (sftpv6 example_env) False,
               [U8 101, U32 5, U32 2, Str ''file does not exist'', Str ''en'']]\<rparr>)"
  using pool_creation
    [where E = example_env and s = "initial_state False 0"
       and job = "\<lparr>data = [1, 0, 0, 0, 6], ptr = [0, 0, 0, 6], jobid = 0\<rparr>"]
  by (simp add: sftp_service_def initial_state_def sftp_service_loop.simps do_read_def
      ntohl_def get32_def process_sftpjob_def parse_uint32_def Let_def dispatch_def
      deref_def sftppreinit_def sftppreinittab_def ncommands_def locate.simps
      run_handler_def sftp_init_def example_env_def queue_add_def
      send_status_plain job_done_def queue_init_def status_to_string_def sftp_h)

end
